theory Spec2Isabelle
  imports Complex_Main "HOL-Library.Sublist"
begin

section \<open>JavaScript values\<close>

subsection \<open>Numbers\<close>

text \<open>
  \<open>jsnum\<close> is a number as a field of the state holds it: a finite value or \<^verbatim>\<open>NaN\<close>. Its
  addition and subtraction are exact; they are used only for the column widths of the
  table layout, percentages that the sliders set to small integers, on which the
  arithmetic of doubles is exact too. The totals of an invoice are computed in double
  arithmetic, which is defined below.
\<close>

datatype jsnum = NaN | Num real

instantiation jsnum :: "{zero, one, plus, minus}"
begin
definition zero_jsnum :: jsnum where
  "zero_jsnum = Num 0"
definition one_jsnum :: jsnum where
  "one_jsnum = Num 1"
definition plus_jsnum :: "jsnum \<Rightarrow> jsnum \<Rightarrow> jsnum" where
  "plus_jsnum a b =
     (case a of NaN \<Rightarrow> NaN | Num x \<Rightarrow> (case b of NaN \<Rightarrow> NaN | Num y \<Rightarrow> Num (x + y)))"
definition minus_jsnum :: "jsnum \<Rightarrow> jsnum \<Rightarrow> jsnum" where
  "minus_jsnum a b =
     (case a of NaN \<Rightarrow> NaN | Num x \<Rightarrow> (case b of NaN \<Rightarrow> NaN | Num y \<Rightarrow> Num (x - y)))"
instance ..
end

instance jsnum :: comm_monoid_add
proof
  fix a b c :: jsnum
  show "a + b + c = a + (b + c)"
    by (simp add: plus_jsnum_def split: jsnum.splits)
  show "a + b = b + a"
    by (simp add: plus_jsnum_def split: jsnum.splits)
  show "0 + a = a"
    by (simp add: plus_jsnum_def zero_jsnum_def split: jsnum.splits)
qed

text \<open>\<^verbatim>\<open>Math.max(a, b)\<close>: \<^verbatim>\<open>NaN\<close> when either argument is.\<close>

definition Math_max :: "jsnum \<Rightarrow> jsnum \<Rightarrow> jsnum" where
  "Math_max a b =
     (case a of NaN \<Rightarrow> NaN | Num x \<Rightarrow> (case b of NaN \<Rightarrow> NaN | Num y \<Rightarrow> Num (max x y)))"

subsection \<open>Truthiness and the operator \<^verbatim>\<open>||\<close>\<close>

text \<open>
  \<^verbatim>\<open>a || b\<close> is \<^verbatim>\<open>a\<close> when \<^verbatim>\<open>a\<close> is truthy and \<^verbatim>\<open>b\<close> otherwise. The falsy numbers are
  \<^verbatim>\<open>NaN\<close> and zero, the falsy string is the empty one, and \<^verbatim>\<open>undefined\<close> (\<open>None\<close> of an
  optional field) is falsy.
\<close>

definition truthy_num :: "jsnum \<Rightarrow> bool" where
  "truthy_num a = (case a of NaN \<Rightarrow> False | Num x \<Rightarrow> x \<noteq> 0)"

definition or_num :: "jsnum \<Rightarrow> jsnum \<Rightarrow> jsnum" where
  "or_num a b = (if truthy_num a then a else b)"

definition or_str :: "string \<Rightarrow> string \<Rightarrow> string" where
  "or_str a b = (if a \<noteq> [] then a else b)"

definition or_undef_str :: "string option \<Rightarrow> string \<Rightarrow> string" where
  "or_undef_str a b = (case a of None \<Rightarrow> b | Some s \<Rightarrow> or_str s b)"

definition or_undef_num :: "jsnum option \<Rightarrow> jsnum \<Rightarrow> jsnum" where
  "or_undef_num a b = (case a of None \<Rightarrow> b | Some x \<Rightarrow> or_num x b)"

subsection \<open>Double arithmetic\<close>











section \<open>Types\<close>

text \<open>
  The interfaces of the source. A field name that several interfaces share carries the
  interface as a suffix (\<open>id_product\<close>, \<open>id_item\<close>, \<open>id_draft\<close>); an optional field
  (\<^verbatim>\<open>image?: string\<close>) is an \<open>option\<close>.
\<close>

record Product =
  id_product :: string
  code :: string
  name :: string
  description_product :: string
  price_product :: jsnum
  image_product :: "string option"

record InvoiceItem =
  id_item :: string
  productId :: "string option"
  description_item :: string
  itemCode :: string
  price_item :: jsnum
  qty :: jsnum
  image_item :: "string option"

record InvoiceData =
  id_draft :: "string option"
  customerName :: string
  reference :: string
  date :: string
  items :: "InvoiceItem list"
  footerNote :: string
  savedAt :: "string option"

record TableConfig =
  imageWidth :: jsnum
  itemWidth :: jsnum
  priceWidth :: jsnum
  qtyWidth :: jsnum
  totalWidth :: jsnum
  rowPadding :: jsnum
  fontSize :: jsnum

record AppSettings =
  companyLogo :: string
  taxRate :: jsnum
  themeColor :: string
  showImageColumn :: bool
  tableConfig :: TableConfig

definition DEFAULT_COLOR :: string where
  "DEFAULT_COLOR = ''#3b82f6''"

definition DEFAULT_TABLE_CONFIG :: TableConfig where
  "DEFAULT_TABLE_CONFIG =
     \<lparr>imageWidth = Num 10, itemWidth = Num 15, priceWidth = Num 15, qtyWidth = Num 10,
      totalWidth = Num 10, rowPadding = Num 8, fontSize = Num 14\<rparr>"

text \<open>
  \<^verbatim>\<open>localStorage\<close>: a map from keys to strings; \<^verbatim>\<open>getItem\<close> of a key that was never set is
  \<^verbatim>\<open>null\<close> (\<open>None\<close>).
\<close>

type_synonym storage = "string \<Rightarrow> string option"

text \<open>
  \<^verbatim>\<open>localStorage.setItem(k, v)\<close> writes the record or, when the quota of the store does not
  allow it, throws and leaves the store as it was. Whether a store accepts a write is a
  parameter of every function that writes.
\<close>

type_synonym quota = "storage \<Rightarrow> string \<Rightarrow> string \<Rightarrow> bool"

definition setItem :: "quota \<Rightarrow> string \<Rightarrow> string \<Rightarrow> storage \<Rightarrow> storage option" where
  "setItem accepts k v ls = (if accepts ls k v then Some (ls(k \<mapsto> v)) else None)"

section \<open>The invoice editor\<close>

text \<open>The state of the component \<^verbatim>\<open>InvoiceEditor\<close>: one field for each \<^verbatim>\<open>useState\<close>.\<close>

record InvoiceEditor =
  data :: InvoiceData
  inventory :: "Product list"
  filteredInventory :: "Product list"
  searchQuery :: string
  showProductPicker :: bool
  showDrafts :: bool
  savedDrafts :: "InvoiceData list"
  settings :: AppSettings
  activeRowId :: "string option"

text \<open>
  \<^verbatim>\<open>addItem(product?)\<close>. The identifier that \<^verbatim>\<open>generateId()\<close> draws at random is the
  parameter \<open>newId\<close>.
\<close>

definition addItem :: "string \<Rightarrow> Product option \<Rightarrow> InvoiceEditor \<Rightarrow> InvoiceEditor" where
  "addItem newId product s =
     (let newItem =
        \<lparr>id_item = newId,
         productId = map_option id_product product,
         description_item =
           (case product of None \<Rightarrow> '''' | Some p \<Rightarrow> name p @ '' - '' @ description_product p),
         itemCode = (case product of None \<Rightarrow> '''' | Some p \<Rightarrow> or_str (code p) ''''),
         price_item = (case product of None \<Rightarrow> 0 | Some p \<Rightarrow> or_num (price_product p) 0),
         qty = 1,
         image_item = (case product of None \<Rightarrow> None | Some p \<Rightarrow> image_product p)\<rparr>
      in s\<lparr>data := (data s)\<lparr>items := items (data s) @ [newItem]\<rparr>,
           showProductPicker := False,
           searchQuery := ''''\<rparr>)"

text \<open>
  \<^verbatim>\<open>updateItem(id, field, value)\<close> writes \<^verbatim>\<open>{...item, [field]: value}\<close>: the field and its
  value are one constructor of \<open>ItemField\<close>.
\<close>

datatype ItemField =
  Field_id string
  | Field_productId "string option"
  | Field_description string
  | Field_itemCode string
  | Field_price jsnum
  | Field_qty jsnum
  | Field_image "string option"

fun setField :: "ItemField \<Rightarrow> InvoiceItem \<Rightarrow> InvoiceItem" where
  "setField (Field_id v) item = item\<lparr>id_item := v\<rparr>"
| "setField (Field_productId v) item = item\<lparr>productId := v\<rparr>"
| "setField (Field_description v) item = item\<lparr>description_item := v\<rparr>"
| "setField (Field_itemCode v) item = item\<lparr>itemCode := v\<rparr>"
| "setField (Field_price v) item = item\<lparr>price_item := v\<rparr>"
| "setField (Field_qty v) item = item\<lparr>qty := v\<rparr>"
| "setField (Field_image v) item = item\<lparr>image_item := v\<rparr>"

definition updateItem :: "string \<Rightarrow> ItemField \<Rightarrow> InvoiceEditor \<Rightarrow> InvoiceEditor" where
  "updateItem i fv s =
     s\<lparr>data := (data s)\<lparr>items :=
          map (\<lambda>item. if id_item item = i then setField fv item else item) (items (data s))\<rparr>\<rparr>"









text \<open>The table layout: the width left for the description column.\<close>

definition usedWidth :: "AppSettings \<Rightarrow> jsnum" where
  "usedWidth st =
     (if showImageColumn st then imageWidth (tableConfig st) else 0)
       + itemWidth (tableConfig st) + priceWidth (tableConfig st)
       + qtyWidth (tableConfig st) + totalWidth (tableConfig st)"

definition descriptionWidth :: "AppSettings \<Rightarrow> jsnum" where
  "descriptionWidth st = Math_max (Num 10) (Num 100 - usedWidth st)"

text \<open>
  \<^verbatim>\<open>Array.prototype.findIndex\<close>: the index of the first element that satisfies the
  predicate, and \<open>-1\<close> when there is none.
\<close>

fun findIndexFrom :: "('a \<Rightarrow> bool) \<Rightarrow> int \<Rightarrow> 'a list \<Rightarrow> int" where
  "findIndexFrom P i [] = - 1"
| "findIndexFrom P i (x # xs) = (if P x then i else findIndexFrom P (i + 1) xs)"

definition findIndex :: "('a \<Rightarrow> bool) \<Rightarrow> 'a list \<Rightarrow> int" where
  "findIndex P xs = findIndexFrom P 0 xs"

text \<open>
  \<^verbatim>\<open>handleSaveDraft\<close>. \<open>newId\<close> is what \<^verbatim>\<open>generateId()\<close> returns when it is called (only
  when the draft has no truthy id), \<open>now\<close> is \<^verbatim>\<open>new Date().toLocaleString()\<close>, and
  \<open>stringify\<close> is \<^verbatim>\<open>JSON.stringify\<close> on a list of drafts. The handler calls
  \<^verbatim>\<open>setSavedDrafts\<close>, then \<^verbatim>\<open>localStorage.setItem\<close>, then \<^verbatim>\<open>setData\<close>: when the store refuses
  the write, the exception leaves the handler before \<^verbatim>\<open>setData\<close>.
\<close>

definition draftToSave :: "string \<Rightarrow> string \<Rightarrow> InvoiceData \<Rightarrow> InvoiceData" where
  "draftToSave newId now d =
     d\<lparr>id_draft := Some (or_undef_str (id_draft d) newId), savedAt := Some now\<rparr>"

definition updatedDrafts :: "string \<Rightarrow> string \<Rightarrow> InvoiceEditor \<Rightarrow> InvoiceData list" where
  "updatedDrafts newId now s =
     (let draftId = or_undef_str (id_draft (data s)) newId;
          existingIndex = findIndex (\<lambda>d. id_draft d = Some draftId) (savedDrafts s)
      in if existingIndex \<ge> 0
         then (savedDrafts s)[nat existingIndex := draftToSave newId now (data s)]
         else draftToSave newId now (data s) # savedDrafts s)"

definition handleSaveDraft ::
  "quota \<Rightarrow> (InvoiceData list \<Rightarrow> string) \<Rightarrow> string \<Rightarrow> string \<Rightarrow> InvoiceEditor \<times> storage
     \<Rightarrow> InvoiceEditor \<times> storage" where
  "handleSaveDraft accepts stringify newId now = (\<lambda>(s, ls).
     (case setItem accepts ''invoiceDrafts'' (stringify (updatedDrafts newId now s)) ls of
        None \<Rightarrow> (s\<lparr>savedDrafts := updatedDrafts newId now s\<rparr>, ls)
      | Some ls' \<Rightarrow>
          (s\<lparr>savedDrafts := updatedDrafts newId now s, data := draftToSave newId now (data s)\<rparr>,
           ls')))"

text \<open>
  The initial state of the component (its \<^verbatim>\<open>useState\<close> initialisers). \<open>today\<close> is
  \<^verbatim>\<open>new Date().toLocaleDateString('en-GB')\<close>; the footer note is the UTF-8 encoding of
  the Arabic literal of the source.
\<close>

definition initialSettings :: AppSettings where
  "initialSettings =
     \<lparr>companyLogo = '''', taxRate = 0, themeColor = DEFAULT_COLOR, showImageColumn = True,
      tableConfig = DEFAULT_TABLE_CONFIG\<rparr>"

definition initialFooterNote :: string where
  "initialFooterNote =
     [CHR 0xD9, CHR 0x85, CHR 0xD8, CHR 0xAF, CHR 0xD8, CHR 0xA9, CHR 0x20, CHR 0xD8, CHR 0xA7,
      CHR 0xD9, CHR 0x84, CHR 0xD8, CHR 0xB4, CHR 0xD8, CHR 0xAD, CHR 0xD9, CHR 0x86, CHR 0x20,
      CHR 0x33, CHR 0x20, CHR 0xD8, CHR 0xA7, CHR 0xD8, CHR 0xB4, CHR 0xD9, CHR 0x87, CHR 0xD8,
      CHR 0xB1, CHR 0x20, CHR 0xD9, CHR 0x85, CHR 0xD9, CHR 0x86, CHR 0x20, CHR 0xD8, CHR 0xA7,
      CHR 0xD9, CHR 0x84, CHR 0xD9, CHR 0x85, CHR 0xD9, CHR 0x88, CHR 0xD8, CHR 0xA7, CHR 0xD9,
      CHR 0x81, CHR 0xD9, CHR 0x82, CHR 0xD8, CHR 0xA9]"

definition initialData :: "string \<Rightarrow> InvoiceData" where
  "initialData today =
     \<lparr>id_draft = None, customerName = ''Customer name :'', reference = ''Offer references'',
      date = today, items = [], footerNote = initialFooterNote, savedAt = None\<rparr>"

definition initialEditor :: "string \<Rightarrow> InvoiceEditor" where
  "initialEditor today =
     \<lparr>data = initialData today, inventory = [], filteredInventory = [], searchQuery = '''',
      showProductPicker = False, showDrafts = False, savedDrafts = [],
      settings = initialSettings, activeRowId = None\<rparr>"

text \<open>
  The change handlers of the numeric inputs of the item rows:
  \<^verbatim>\<open>updateItem(item.id, 'price', parseFloat(e.target.value) || 0)\<close> and the same for
  \<^verbatim>\<open>'qty'\<close>. The built-in \<^verbatim>\<open>parseFloat\<close> is a parameter: it maps the text of the input to a
  number or to \<^verbatim>\<open>NaN\<close>.
\<close>

definition priceInput_onChange ::
  "(string \<Rightarrow> jsnum) \<Rightarrow> string \<Rightarrow> string \<Rightarrow> InvoiceEditor \<Rightarrow> InvoiceEditor" where
  "priceInput_onChange parseFloat i v s = updateItem i (Field_price (or_num (parseFloat v) 0)) s"

definition qtyInput_onChange ::
  "(string \<Rightarrow> jsnum) \<Rightarrow> string \<Rightarrow> string \<Rightarrow> InvoiceEditor \<Rightarrow> InvoiceEditor" where
  "qtyInput_onChange parseFloat i v s = updateItem i (Field_qty (or_num (parseFloat v) 0)) s"

section \<open>The settings view\<close>

text \<open>\<^verbatim>\<open>setSettings({...settings, taxRate: parseFloat(e.target.value) || 0})\<close>\<close>

definition taxRateInput_onChange :: "(string \<Rightarrow> jsnum) \<Rightarrow> string \<Rightarrow> AppSettings \<Rightarrow> AppSettings" where
  "taxRateInput_onChange parseFloat v st = st\<lparr>taxRate := or_num (parseFloat v) 0\<rparr>"

subsection \<open>JSON values\<close>

text \<open>
  What \<^verbatim>\<open>JSON.parse\<close> returns. An object is the list of its properties in order.
  \<^verbatim>\<open>JSON.parse\<close> and \<^verbatim>\<open>JSON.stringify\<close> themselves are parameters of the functions that
  call them; \<^verbatim>\<open>JSON.parse\<close> returns \<open>None\<close> where it throws a \<^verbatim>\<open>SyntaxError\<close>.
\<close>

datatype json =
  JNull
  | JBool bool
  | JNum real
  | JStr string
  | JArr "json list"
  | JObj "(string \<times> json) list"

datatype js_error = TypeError | SyntaxError

definition truthy :: "json \<Rightarrow> bool" where
  "truthy v =
     (case v of JNull \<Rightarrow> False | JBool b \<Rightarrow> b | JNum r \<Rightarrow> r \<noteq> 0 | JStr s \<Rightarrow> s \<noteq> []
      | JArr xs \<Rightarrow> True | JObj kvs \<Rightarrow> True)"

text \<open>
  \<open>getProp v k\<close> is the property access \<^verbatim>\<open>v.k\<close> for the keys the program reads
  (\<^verbatim>\<open>products\<close>, \<^verbatim>\<open>drafts\<close>, \<^verbatim>\<open>settings\<close>, \<^verbatim>\<open>themeColor\<close>, \<^verbatim>\<open>showImageColumn\<close>,
  \<^verbatim>\<open>tableConfig\<close>): \<^verbatim>\<open>undefined\<close> (\<open>None\<close>) on anything but an object that has the key.
  On \<^verbatim>\<open>null\<close> the access throws a \<^verbatim>\<open>TypeError\<close>, which the callers test first.
\<close>

definition getProp :: "json \<Rightarrow> string \<Rightarrow> json option" where
  "getProp v k = (case v of JObj kvs \<Rightarrow> map_of kvs k | _ \<Rightarrow> None)"

text \<open>Decimal numerals, for the index keys of arrays and strings.\<close>

fun decimal :: "nat \<Rightarrow> string" where
  "decimal n =
     (if n < 10 then [char_of (48 + n)] else decimal (n div 10) @ [char_of (48 + n mod 10)])"

text \<open>
  The own enumerable properties that an object spread \<^verbatim>\<open>{...v}\<close> copies: the properties of
  an object, the elements of an array and the characters of a string under their
  indices, and nothing for \<^verbatim>\<open>null\<close>, a boolean or a number.
\<close>

definition ownProps :: "json \<Rightarrow> (string \<times> json) list" where
  "ownProps v =
     (case v of
        JObj kvs \<Rightarrow> kvs
      | JArr xs \<Rightarrow> map (\<lambda>(i, x). (decimal i, x)) (enumerate 0 xs)
      | JStr s \<Rightarrow> map (\<lambda>(i, c). (decimal i, JStr [c])) (enumerate 0 s)
      | _ \<Rightarrow> [])"

text \<open>
  Writing a property: an existing key keeps its place and takes the new value, a new key
  goes to the end. \<open>assign\<close> writes the properties of a source into a target from left to
  right, as a spread inside an object literal does.
\<close>

fun setProp :: "string \<Rightarrow> json \<Rightarrow> (string \<times> json) list \<Rightarrow> (string \<times> json) list" where
  "setProp k v [] = [(k, v)]"
| "setProp k v ((k', v') # kvs) = (if k' = k then (k, v) # kvs else (k', v') # setProp k v kvs)"

definition assign :: "(string \<times> json) list \<Rightarrow> (string \<times> json) list \<Rightarrow> (string \<times> json) list" where
  "assign target source = foldl (\<lambda>acc (k, v). setProp k v acc) target source"

subsection \<open>Loading the settings\<close>

text \<open>
  The effect that both \<^verbatim>\<open>SettingsView\<close> and \<^verbatim>\<open>InvoiceEditor\<close> run on mount. At run time the
  settings are whatever object the effect builds, so here they are a property list;
  \<open>DEFAULT_TABLE_CONFIG_obj\<close> is \<^verbatim>\<open>DEFAULT_TABLE_CONFIG\<close> as such an object.
\<close>

definition DEFAULT_TABLE_CONFIG_obj :: "(string \<times> json) list" where
  "DEFAULT_TABLE_CONFIG_obj =
     [(''imageWidth'', JNum 10), (''itemWidth'', JNum 15), (''priceWidth'', JNum 15),
      (''qtyWidth'', JNum 10), (''totalWidth'', JNum 10), (''rowPadding'', JNum 8),
      (''fontSize'', JNum 14)]"

definition initialSettings_obj :: "(string \<times> json) list" where
  "initialSettings_obj =
     [(''companyLogo'', JStr []), (''taxRate'', JNum 0), (''themeColor'', JStr DEFAULT_COLOR),
      (''showImageColumn'', JBool True), (''tableConfig'', JObj DEFAULT_TABLE_CONFIG_obj)]"

definition loadSettings :: "json \<Rightarrow> js_error + (string \<times> json) list" where
  "loadSettings parsed =
     (case parsed of
        JNull \<Rightarrow> Inl TypeError
      | _ \<Rightarrow>
          Inr (setProp ''tableConfig''
                 (case getProp parsed ''tableConfig'' of
                    None \<Rightarrow> JObj DEFAULT_TABLE_CONFIG_obj
                  | Some tc \<Rightarrow>
                      if truthy tc then JObj (assign DEFAULT_TABLE_CONFIG_obj (ownProps tc))
                      else JObj DEFAULT_TABLE_CONFIG_obj)
              (setProp ''showImageColumn''
                 (case getProp parsed ''showImageColumn'' of None \<Rightarrow> JBool True | Some v \<Rightarrow> v)
              (setProp ''themeColor''
                 (case getProp parsed ''themeColor'' of
                    None \<Rightarrow> JStr DEFAULT_COLOR
                  | Some v \<Rightarrow> if truthy v then v else JStr DEFAULT_COLOR)
              (ownProps parsed)))))"

definition loadStoredSettings ::
  "(string \<Rightarrow> json option) \<Rightarrow> storage \<Rightarrow> (string \<times> json) list
     \<Rightarrow> js_error + (string \<times> json) list" where
  "loadStoredSettings parse ls current =
     (case ls ''appSettings'' of
        None \<Rightarrow> Inr current
      | Some stored \<Rightarrow>
          if stored = [] then Inr current
          else (case parse stored of None \<Rightarrow> Inl SyntaxError | Some parsed \<Rightarrow> loadSettings parsed))"

subsection \<open>Backup and restore\<close>

text \<open>
  \<^verbatim>\<open>handleBackup\<close> returns the text of the file it offers for download, and \<open>None\<close> when a
  \<^verbatim>\<open>JSON.parse\<close> throws (nothing catches it, no file is written). \<open>stringify_pretty\<close> is
  \<^verbatim>\<open>JSON.stringify(_, null, 2)\<close>.
\<close>

definition handleBackup :: "(string \<Rightarrow> json option) \<Rightarrow> (json \<Rightarrow> string) \<Rightarrow> storage \<Rightarrow> string option" where
  "handleBackup parse stringify_pretty ls =
     (case parse (or_undef_str (ls ''products'') ''[]'') of
        None \<Rightarrow> None
      | Some products_v \<Rightarrow>
     (case parse (or_undef_str (ls ''invoiceDrafts'') ''[]'') of
        None \<Rightarrow> None
      | Some drafts_v \<Rightarrow>
     (case parse (or_undef_str (ls ''appSettings'') ''{}'') of
        None \<Rightarrow> None
      | Some settings_v \<Rightarrow>
          Some (stringify_pretty
                  (JObj [(''products'', products_v), (''drafts'', drafts_v),
                         (''settings'', settings_v)])))))"

text \<open>
  \<^verbatim>\<open>handleRestore\<close>, with the text that the \<^verbatim>\<open>FileReader\<close> delivers (\<open>None\<close>: no file was
  chosen). Every exception inside \<^verbatim>\<open>onload\<close> is caught and reported: the property access
  on \<^verbatim>\<open>null\<close>, which comes before any write, and a write that the store refuses, which
  ends the restore after the writes made so far.
\<close>

datatype RestoreOutcome = NoFile | Restored | RestoreFailed

definition restoreKey ::
  "quota \<Rightarrow> (json \<Rightarrow> string) \<Rightarrow> json \<Rightarrow> string \<Rightarrow> string \<Rightarrow> storage \<Rightarrow> storage option" where
  "restoreKey accepts stringify d k storageKey ls =
     (case getProp d k of
        None \<Rightarrow> Some ls
      | Some v \<Rightarrow> if truthy v then setItem accepts storageKey (stringify v) ls else Some ls)"

definition handleRestore ::
  "quota \<Rightarrow> (string \<Rightarrow> json option) \<Rightarrow> (json \<Rightarrow> string) \<Rightarrow> string option \<Rightarrow> storage
     \<Rightarrow> storage \<times> RestoreOutcome" where
  "handleRestore accepts parse stringify fileText ls =
     (case fileText of
        None \<Rightarrow> (ls, NoFile)
      | Some content \<Rightarrow>
          (case parse content of
             None \<Rightarrow> (ls, RestoreFailed)
           | Some JNull \<Rightarrow> (ls, RestoreFailed)
           | Some d \<Rightarrow>
               (case restoreKey accepts stringify d ''products'' ''products'' ls of
                  None \<Rightarrow> (ls, RestoreFailed)
                | Some ls1 \<Rightarrow>
               (case restoreKey accepts stringify d ''drafts'' ''invoiceDrafts'' ls1 of
                  None \<Rightarrow> (ls1, RestoreFailed)
                | Some ls2 \<Rightarrow>
               (case restoreKey accepts stringify d ''settings'' ''appSettings'' ls2 of
                  None \<Rightarrow> (ls2, RestoreFailed)
                | Some ls3 \<Rightarrow> (ls3, Restored))))))"

text \<open>
  \<^verbatim>\<open>JSON.parse\<close> and \<^verbatim>\<open>JSON.stringify\<close> on the texts and values of two stores: the empty
  store, and a store that holds one product and neither drafts nor settings. The texts
  are \<^verbatim>\<open>[]\<close>, \<^verbatim>\<open>{}\<close>, the \<^verbatim>\<open>products\<close> record of the second store, and the two backup files
  as \<^verbatim>\<open>JSON.stringify(_, null, 2)\<close> lays them out.
\<close>

definition empty_backup :: json where
  "empty_backup = JObj [(''products'', JArr []), (''drafts'', JArr []), (''settings'', JObj [])]"

definition empty_backup_text :: string where
  "empty_backup_text =
     ''{'' @ [CHR 0x0A] @ ''  '' @ [CHR 0x22] @ ''products'' @ [CHR 0x22] @ '': [],'' @
     [CHR 0x0A] @ ''  '' @ [CHR 0x22] @ ''drafts'' @ [CHR 0x22] @ '': [],'' @ [CHR 0x0A] @
     ''  '' @ [CHR 0x22] @ ''settings'' @ [CHR 0x22] @ '': {}'' @ [CHR 0x0A] @ ''}''"

definition one_product :: json where
  "one_product =
     JArr [JObj [(''id'', JStr ''k3j9x0q1z''), (''code'', JStr ''A-1''), (''name'', JStr ''Lamp''),
                 (''description'', JStr ''Desk lamp''), (''price'', JNum 25)]]"

definition one_product_text :: string where
  "one_product_text =
     ''[{'' @ [CHR 0x22] @ ''id'' @ [CHR 0x22] @ '':'' @ [CHR 0x22] @ ''k3j9x0q1z'' @
     [CHR 0x22] @ '','' @ [CHR 0x22] @ ''code'' @ [CHR 0x22] @ '':'' @ [CHR 0x22] @
     ''A-1'' @ [CHR 0x22] @ '','' @ [CHR 0x22] @ ''name'' @ [CHR 0x22] @ '':'' @
     [CHR 0x22] @ ''Lamp'' @ [CHR 0x22] @ '','' @ [CHR 0x22] @ ''description'' @
     [CHR 0x22] @ '':'' @ [CHR 0x22] @ ''Desk lamp'' @ [CHR 0x22] @ '','' @ [CHR 0x22] @
     ''price'' @ [CHR 0x22] @ '':25}]''"

definition one_product_backup :: json where
  "one_product_backup =
     JObj [(''products'', one_product), (''drafts'', JArr []), (''settings'', JObj [])]"

definition one_product_backup_text :: string where
  "one_product_backup_text =
     ''{'' @ [CHR 0x0A] @ ''  '' @ [CHR 0x22] @ ''products'' @ [CHR 0x22] @ '': ['' @
     [CHR 0x0A] @ ''    {'' @ [CHR 0x0A] @ ''      '' @ [CHR 0x22] @ ''id'' @ [CHR 0x22] @
     '': '' @ [CHR 0x22] @ ''k3j9x0q1z'' @ [CHR 0x22] @ '','' @ [CHR 0x0A] @ ''      '' @
     [CHR 0x22] @ ''code'' @ [CHR 0x22] @ '': '' @ [CHR 0x22] @ ''A-1'' @ [CHR 0x22] @
     '','' @ [CHR 0x0A] @ ''      '' @ [CHR 0x22] @ ''name'' @ [CHR 0x22] @ '': '' @
     [CHR 0x22] @ ''Lamp'' @ [CHR 0x22] @ '','' @ [CHR 0x0A] @ ''      '' @ [CHR 0x22] @
     ''description'' @ [CHR 0x22] @ '': '' @ [CHR 0x22] @ ''Desk lamp'' @ [CHR 0x22] @
     '','' @ [CHR 0x0A] @ ''      '' @ [CHR 0x22] @ ''price'' @ [CHR 0x22] @ '': 25'' @
     [CHR 0x0A] @ ''    }'' @ [CHR 0x0A] @ ''  ],'' @ [CHR 0x0A] @ ''  '' @ [CHR 0x22] @
     ''drafts'' @ [CHR 0x22] @ '': [],'' @ [CHR 0x0A] @ ''  '' @ [CHR 0x22] @
     ''settings'' @ [CHR 0x22] @ '': {}'' @ [CHR 0x0A] @ ''}''"

definition sample_parse :: "string \<Rightarrow> json option" where
  "sample_parse s =
     (if s = ''[]'' then Some (JArr [])
      else if s = ''{}'' then Some (JObj [])
      else if s = one_product_text then Some one_product
      else if s = empty_backup_text then Some empty_backup
      else if s = one_product_backup_text then Some one_product_backup
      else None)"

definition sample_stringify :: "json \<Rightarrow> string" where
  "sample_stringify v =
     (if v = JArr [] then ''[]''
      else if v = JObj [] then ''{}''
      else if v = one_product then one_product_text
      else [])"

definition sample_stringify_pretty :: "json \<Rightarrow> string" where
  "sample_stringify_pretty v =
     (if v = empty_backup then empty_backup_text
      else if v = one_product_backup then one_product_backup_text
      else [])"

text \<open>A store that accepts every write.\<close>

definition unlimited :: quota where
  "unlimited ls k v = True"

section \<open>The inventory\<close>

text \<open>
  The state of the component \<^verbatim>\<open>Inventory\<close>. The status line is one of the messages the
  component shows: none, "analysing the file", "reading the Word file", "extracted n
  products", "no products found in the file", and "an error occurred during processing".
\<close>

datatype UploadStatus =
  Status_none
  | Status_analysing
  | Status_reading_word
  | Status_extracted nat
  | Status_no_products
  | Status_error

record Inventory =
  products :: "Product list"
  isUploading :: bool
  uploadStatus :: UploadStatus
  editingProduct :: "Product option"

text \<open>The step of a handler that threw or whose promise was rejected.\<close>

datatype failure =
  FileReadFailed
  | TextExtractionFailed
  | ApiCallFailed
  | ResponseParseFailed
  | StorageWriteFailed

text \<open>
  \<^verbatim>\<open>saveProducts\<close> calls \<^verbatim>\<open>setProducts\<close> and then \<^verbatim>\<open>localStorage.setItem\<close>; \<open>stringify\<close> is
  \<^verbatim>\<open>JSON.stringify\<close> on a list of products. The result is the state and the store it
  leaves, with the exception if the write threw: the state has the new list by then.
\<close>

definition saveProducts ::
  "quota \<Rightarrow> (Product list \<Rightarrow> string) \<Rightarrow> Product list \<Rightarrow> Inventory \<times> storage
     \<Rightarrow> (Inventory \<times> storage) \<times> failure option" where
  "saveProducts accepts stringify newProducts = (\<lambda>(s, ls).
     (case setItem accepts ''products'' (stringify newProducts) ls of
        None \<Rightarrow> ((s\<lparr>products := newProducts\<rparr>, ls), Some StorageWriteFailed)
      | Some ls' \<Rightarrow> ((s\<lparr>products := newProducts\<rparr>, ls'), None)))"

text \<open>
  \<^verbatim>\<open>handleDelete(id)\<close>; \<open>confirmed\<close> is the answer to the \<^verbatim>\<open>confirm\<close> dialog. Nothing catches
  an exception of the write here: the handler ends with the state and the store as
  \<^verbatim>\<open>saveProducts\<close> left them.
\<close>

definition handleDelete ::
  "quota \<Rightarrow> (Product list \<Rightarrow> string) \<Rightarrow> string \<Rightarrow> bool \<Rightarrow> Inventory \<times> storage
     \<Rightarrow> Inventory \<times> storage" where
  "handleDelete accepts stringify i confirmed = (\<lambda>(s, ls).
     if confirmed
     then fst (saveProducts accepts stringify (filter (\<lambda>p. id_product p \<noteq> i) (products s)) (s, ls))
     else (s, ls))"

text \<open>
  \<^verbatim>\<open>setEditingProduct({...editingProduct, price: parseFloat(e.target.value) || 0})\<close>, the
  price input of the edit dialog.
\<close>

definition editPriceInput_onChange :: "(string \<Rightarrow> jsnum) \<Rightarrow> string \<Rightarrow> Product \<Rightarrow> Product" where
  "editPriceInput_onChange parseFloat v p = p\<lparr>price_product := or_num (parseFloat v) 0\<rparr>"

subsection \<open>Extraction from an uploaded file\<close>

record File =
  name_file :: string
  type_file :: string

text \<open>
  One entry of the \<^verbatim>\<open>products\<close> array of the response, as the response schema declares
  it: every property may be missing.
\<close>

record RawProduct =
  code_raw :: "string option"
  name_raw :: "string option"
  description_raw :: "string option"
  price_raw :: "jsnum option"

datatype Part = Text_part string | InlineData_part string "string option"

text \<open>
  What the handler gets from outside: the API key, the file's bytes
  (\<^verbatim>\<open>file.arrayBuffer()\<close>), the text \<^verbatim>\<open>mammoth\<close> extracts from them (\<^verbatim>\<open>result.value\<close>), the data
  URL that \<^verbatim>\<open>fileToBase64\<close> reads, \<^verbatim>\<open>response.text\<close> of the model's answer to the request
  parts, \<^verbatim>\<open>JSON.parse\<close> of that text with its entries read by the response schema (\<open>None\<close>:
  the parsed value has no array \<^verbatim>\<open>products\<close>; \<open>Inl\<close>: the text does not parse, or the
  value makes a property access throw, as \<^verbatim>\<open>null\<close> does), and the identifiers that
  successive \<^verbatim>\<open>generateId()\<close> calls draw.
\<close>

record UploadEnv =
  API_KEY :: "string option"
  arrayBuffer :: "File \<Rightarrow> failure + string"
  extractRawText :: "string \<Rightarrow> failure + string"
  fileToBase64 :: "File \<Rightarrow> failure + string"
  generateContent :: "Part list \<Rightarrow> failure + string option"
  JSON_parse :: "string \<Rightarrow> failure + RawProduct list option"
  generateId :: "nat \<Rightarrow> string"

definition docxMimeType :: string where
  "docxMimeType = ''application/vnd.openxmlformats-officedocument.wordprocessingml.document''"

definition wordIntroduction :: string where
  "wordIntroduction = ''Here is the content of a Word document containing product information:''"

definition wordInstruction :: string where
  "wordInstruction = ''Extract product information from this text. Return a list of products found. For each product, extract: code (or item number), name, description, and price (as a number). If price is missing, put 0.''"

definition fileInstruction :: string where
  "fileInstruction = ''Extract product information from this document/image. Return a list of products found. For each product, extract: code (or item number), name, description, and price (as a number). If price is missing, put 0.''"

text \<open>The placeholder name, the UTF-8 encoding of the Arabic literal ("new product").\<close>

definition placeholderName :: string where
  "placeholderName =
     [CHR 0xD9, CHR 0x85, CHR 0xD9, CHR 0x86, CHR 0xD8, CHR 0xAA, CHR 0xD8, CHR 0xAC, CHR 0x20,
      CHR 0xD8, CHR 0xAC, CHR 0xD8, CHR 0xAF, CHR 0xD9, CHR 0x8A, CHR 0xD8, CHR 0xAF]"

text \<open>\<^verbatim>\<open>s.split(c)\<close> for a one-character separator, and \<^verbatim>\<open>xs[i]\<close> with \<^verbatim>\<open>undefined\<close> past the end.\<close>

fun split_on :: "char \<Rightarrow> string \<Rightarrow> string list" where
  "split_on c [] = [[]]"
| "split_on c (x # xs) =
     (if x = c then [] # split_on c xs
      else (case split_on c xs of [] \<Rightarrow> [[x]] | w # ws \<Rightarrow> (x # w) # ws))"

definition at_index :: "'a list \<Rightarrow> nat \<Rightarrow> 'a option" where
  "at_index xs i = (if i < length xs then Some (xs ! i) else None)"

definition isWord :: "File \<Rightarrow> bool" where
  "isWord file = (suffix ''.docx'' (name_file file) \<or> type_file file = docxMimeType)"

text \<open>
  The first half of the \<^verbatim>\<open>try\<close> block: the request parts and \<^verbatim>\<open>base64Data\<close>, which stays
  empty on the Word branch.
\<close>

definition readParts :: "UploadEnv \<Rightarrow> File \<Rightarrow> failure + (Part list \<times> string)" where
  "readParts env file =
     (if isWord file then
        (case arrayBuffer env file of
           Inl e \<Rightarrow> Inl e
         | Inr buffer \<Rightarrow>
             (case extractRawText env buffer of
                Inl e \<Rightarrow> Inl e
              | Inr textContent \<Rightarrow>
                  if textContent = [] then Inl TextExtractionFailed
                  else Inr ([Text_part wordIntroduction, Text_part textContent,
                             Text_part wordInstruction], [])))
      else
        (case fileToBase64 env file of
           Inl e \<Rightarrow> Inl e
         | Inr base64Data \<Rightarrow>
             Inr ([InlineData_part (type_file file) (at_index (split_on CHR '','' base64Data) 1),
                   Text_part fileInstruction], base64Data)))"

text \<open>The product made from one entry, and the batch \<^verbatim>\<open>newItems\<close>.\<close>

definition toProduct :: "File \<Rightarrow> string \<Rightarrow> string \<Rightarrow> RawProduct \<Rightarrow> Product" where
  "toProduct file base64Data newId p =
     \<lparr>id_product = newId,
      code = or_undef_str (code_raw p) ''N/A'',
      name = or_undef_str (name_raw p) placeholderName,
      description_product = or_undef_str (description_raw p) [],
      price_product = or_undef_num (price_raw p) 0,
      image_product =
        (if \<not> isWord file \<and> base64Data \<noteq> [] \<and> prefix ''image'' (type_file file)
         then Some base64Data else None)\<rparr>"

definition newItems :: "UploadEnv \<Rightarrow> File \<Rightarrow> string \<Rightarrow> RawProduct list \<Rightarrow> Product list" where
  "newItems env file base64Data raws =
     map (\<lambda>(i, p). toProduct file base64Data (generateId env i) p) (enumerate 0 raws)"

text \<open>
  The \<^verbatim>\<open>try\<close> block, from the state and the store at its start to the state and the
  store at its end or at the statement that threw, with the exception if there was one.
  \<open>products s\<close> is the list the handler's closure holds. On the Word branch the status
  line changes before the file is read.
\<close>

definition tryBlock ::
  "quota \<Rightarrow> UploadEnv \<Rightarrow> (Product list \<Rightarrow> string) \<Rightarrow> File \<Rightarrow> Inventory \<times> storage
     \<Rightarrow> (Inventory \<times> storage) \<times> failure option" where
  "tryBlock accepts env stringify file = (\<lambda>(s, ls).
     (let s' = (if isWord file then s\<lparr>uploadStatus := Status_reading_word\<rparr> else s) in
      case readParts env file of
        Inl e \<Rightarrow> ((s', ls), Some e)
      | Inr (parts, base64Data) \<Rightarrow>
          (case generateContent env parts of
             Inl e \<Rightarrow> ((s', ls), Some e)
           | Inr response_text \<Rightarrow>
               if or_undef_str response_text [] = [] then ((s', ls), None)
               else
                 (case JSON_parse env (or_undef_str response_text []) of
                    Inl e \<Rightarrow> ((s', ls), Some e)
                  | Inr None \<Rightarrow> ((s'\<lparr>uploadStatus := Status_no_products\<rparr>, ls), None)
                  | Inr (Some raws) \<Rightarrow>
                      (case saveProducts accepts stringify
                              (products s @ newItems env file base64Data raws) (s', ls) of
                         ((s'', ls''), Some e) \<Rightarrow> ((s'', ls''), Some e)
                       | ((s'', ls''), None) \<Rightarrow>
                           ((s''\<lparr>uploadStatus :=
                                    Status_extracted (length (newItems env file base64Data raws))\<rparr>,
                             ls''), None))))))"

text \<open>
  \<^verbatim>\<open>handleFileUpload\<close>, from the chosen file (\<open>None\<close>: none) to the state after \<^verbatim>\<open>finally\<close>.
  Without a file, or without an API key, it returns before the \<^verbatim>\<open>try\<close> block. The \<^verbatim>\<open>catch\<close>
  sets the error status on the state that the \<^verbatim>\<open>try\<close> block left; it undoes nothing.
\<close>

definition handleFileUpload ::
  "quota \<Rightarrow> UploadEnv \<Rightarrow> (Product list \<Rightarrow> string) \<Rightarrow> File option \<Rightarrow> Inventory \<times> storage
     \<Rightarrow> Inventory \<times> storage" where
  "handleFileUpload accepts env stringify chosen = (\<lambda>(s, ls).
     (case chosen of
        None \<Rightarrow> (s, ls)
      | Some file \<Rightarrow>
          if or_undef_str (API_KEY env) [] = [] then (s, ls)
          else
            (case tryBlock accepts env stringify file
                    (s\<lparr>isUploading := True, uploadStatus := Status_analysing\<rparr>, ls) of
               ((s', ls'), Some e) \<Rightarrow> (s'\<lparr>uploadStatus := Status_error, isUploading := False\<rparr>, ls')
             | ((s', ls'), None) \<Rightarrow> (s'\<lparr>isUploading := False\<rparr>, ls'))))"

section \<open>The application\<close>

text \<open>
  The components side by side with the store they share. A handler of a component reads
  and writes the state of that component and \<^verbatim>\<open>localStorage\<close>, and nothing else.
\<close>

record App =
  localStorage :: storage
  inventoryView :: Inventory
  invoiceEditor :: InvoiceEditor

definition inInventory :: "(Inventory \<times> storage \<Rightarrow> Inventory \<times> storage) \<Rightarrow> App \<Rightarrow> App" where
  "inInventory handler app =
     (case handler (inventoryView app, localStorage app) of
        (s, ls) \<Rightarrow> app\<lparr>inventoryView := s, localStorage := ls\<rparr>)"

definition inInvoiceEditor ::
  "(InvoiceEditor \<times> storage \<Rightarrow> InvoiceEditor \<times> storage) \<Rightarrow> App \<Rightarrow> App" where
  "inInvoiceEditor handler app =
     (case handler (invoiceEditor app, localStorage app) of
        (s, ls) \<Rightarrow> app\<lparr>invoiceEditor := s, localStorage := ls\<rparr>)"


definition sample_picture :: File where
  "sample_picture = \<lparr>name_file = ''shelf.png'', type_file = ''image/png''\<rparr>"

definition sample_response_text :: string where
  "sample_response_text =
     ''{'' @ [CHR 0x22] @ ''products'' @ [CHR 0x22] @ '':[{'' @
     [CHR 0x22] @ ''code'' @ [CHR 0x22] @ '':'' @ [CHR 0x22] @ ''A-1'' @ [CHR 0x22] @ '','' @
     [CHR 0x22] @ ''name'' @ [CHR 0x22] @ '':'' @ [CHR 0x22] @ ''Lamp'' @ [CHR 0x22] @ '','' @
     [CHR 0x22] @ ''description'' @ [CHR 0x22] @ '':'' @ [CHR 0x22] @ ''Desk lamp'' @ [CHR 0x22] @ '','' @
     [CHR 0x22] @ ''price'' @ [CHR 0x22] @ '':25},{'' @
     [CHR 0x22] @ ''name'' @ [CHR 0x22] @ '':'' @ [CHR 0x22] @ ''Chair'' @ [CHR 0x22] @ ''}]}''"

definition sample_entries :: "RawProduct list" where
  "sample_entries =
     [\<lparr>code_raw = Some ''A-1'', name_raw = Some ''Lamp'', description_raw = Some ''Desk lamp'',
       price_raw = Some (Num 25)\<rparr>,
      \<lparr>code_raw = None, name_raw = Some ''Chair'', description_raw = None, price_raw = None\<rparr>]"

definition sample_env :: UploadEnv where
  "sample_env =
     \<lparr>API_KEY = Some ''key'',
      arrayBuffer = (\<lambda>f. Inr ''PK''),
      extractRawText = (\<lambda>b. Inr ''A-1 Lamp 25''),
      fileToBase64 = (\<lambda>f. Inr ''data:image/png;base64,iVBORw0KGgo=''),
      generateContent = (\<lambda>parts. Inr (Some sample_response_text)),
      JSON_parse = (\<lambda>t. if t = sample_response_text then Inr (Some sample_entries)
                         else Inl ResponseParseFailed),
      generateId = (\<lambda>i. ''id'' @ decimal i)\<rparr>"

definition sample_inventory :: Inventory where
  "sample_inventory =
     \<lparr>products = [], isUploading = False, uploadStatus = Status_none, editingProduct = None\<rparr>"

section \<open>Properties\<close>

subsection \<open>Totals\<close>
















subsection \<open>The description column\<close>

text \<open>
  C5, as the claim states it, fails: with the image column hidden the image width is not
  part of the sum. For the default table configuration (widths 10, 15, 15, 10, 10, so
  \<open>W = 60\<close>) and a hidden image column the description column gets 50 percent, not
  \<open>max(10, 100 - 60) = 40\<close>.
\<close>

theorem descriptionWidth_hidden_image_counterexample:
  "descriptionWidth (initialSettings\<lparr>showImageColumn := False\<rparr>) = Num 50
   \<and> Math_max (Num 10)
        (Num 100
          - (imageWidth (tableConfig (initialSettings\<lparr>showImageColumn := False\<rparr>))
             + itemWidth (tableConfig (initialSettings\<lparr>showImageColumn := False\<rparr>))
             + priceWidth (tableConfig (initialSettings\<lparr>showImageColumn := False\<rparr>))
             + qtyWidth (tableConfig (initialSettings\<lparr>showImageColumn := False\<rparr>))
             + totalWidth (tableConfig (initialSettings\<lparr>showImageColumn := False\<rparr>))))
       = Num 40"
  by (simp add: descriptionWidth_def usedWidth_def initialSettings_def DEFAULT_TABLE_CONFIG_def
      Math_max_def plus_jsnum_def minus_jsnum_def zero_jsnum_def)

text \<open>
  C5, amended. With the image column shown, the description width is \<open>max(10, 100 - W)\<close>
  for \<open>W\<close> the sum of the image, item, price, qty and total widths; with the image column
  hidden, \<open>W\<close> is the sum of the item, price, qty and total widths only.
\<close>

theorem descriptionWidth_derived:
  "(showImageColumn st \<longrightarrow>
      descriptionWidth st
        = Math_max (Num 10)
            (Num 100
              - (imageWidth (tableConfig st) + itemWidth (tableConfig st)
                 + priceWidth (tableConfig st) + qtyWidth (tableConfig st)
                 + totalWidth (tableConfig st))))
   \<and> (\<not> showImageColumn st \<longrightarrow>
      descriptionWidth st
        = Math_max (Num 10)
            (Num 100
              - (itemWidth (tableConfig st) + priceWidth (tableConfig st)
                 + qtyWidth (tableConfig st) + totalWidth (tableConfig st))))"
  by (simp add: descriptionWidth_def usedWidth_def)

theorem descriptionWidth_derived_witness:
  "showImageColumn initialSettings
   \<and> descriptionWidth initialSettings = Num 40
   \<and> \<not> showImageColumn (initialSettings\<lparr>showImageColumn := False\<rparr>)
   \<and> descriptionWidth (initialSettings\<lparr>showImageColumn := False\<rparr>) = Num 50"
  using descriptionWidth_derived [of initialSettings]
    descriptionWidth_derived [of "initialSettings\<lparr>showImageColumn := False\<rparr>"]
  by (simp add: initialSettings_def DEFAULT_TABLE_CONFIG_def Math_max_def plus_jsnum_def
      minus_jsnum_def)

subsection \<open>Saving a draft\<close>

lemma findIndexFrom_none:
  "\<forall>x\<in>set xs. \<not> P x \<Longrightarrow> findIndexFrom P i xs = - 1"
  by (induction xs arbitrary: i) simp_all

lemma findIndexFrom_some:
  "\<exists>x\<in>set xs. P x \<Longrightarrow>
     \<exists>k<length xs. findIndexFrom P i xs = i + int k \<and> P (xs ! k) \<and> (\<forall>j<k. \<not> P (xs ! j))"
proof (induction xs arbitrary: i)
  case Nil
  then show ?case by simp
next
  case (Cons x xs)
  show ?case
  proof (cases "P x")
    case True
    then show ?thesis by (intro exI [of _ 0]) simp
  next
    case False
    with Cons.prems have "\<exists>y\<in>set xs. P y" by simp
    from Cons.IH [OF this, of "i + 1"] obtain k where k: "k < length xs"
      "findIndexFrom P (i + 1) xs = i + 1 + int k" "P (xs ! k)" "\<forall>j<k. \<not> P (xs ! j)"
      by blast
    show ?thesis
    proof (intro exI [of _ "Suc k"] conjI allI impI)
      show "Suc k < length (x # xs)" using k(1) by simp
      show "findIndexFrom P i (x # xs) = i + int (Suc k)" using False k(2) by simp
      show "P ((x # xs) ! Suc k)" using k(3) by simp
      fix j assume "j < Suc k"
      then show "\<not> P ((x # xs) ! j)" using False k(4) by (cases j) simp_all
    qed
  qed
qed

lemma updatedDrafts_new:
  assumes "Some (or_undef_str (id_draft (data s)) newId) \<notin> id_draft ` set (savedDrafts s)"
  shows "updatedDrafts newId now s = draftToSave newId now (data s) # savedDrafts s"
proof -
  have "\<forall>d\<in>set (savedDrafts s). \<not> id_draft d = Some (or_undef_str (id_draft (data s)) newId)"
    using assms by (metis imageI)
  then have "findIndex (\<lambda>d. id_draft d = Some (or_undef_str (id_draft (data s)) newId)) (savedDrafts s) = - 1"
    unfolding findIndex_def by (rule findIndexFrom_none)
  then show ?thesis by (simp add: updatedDrafts_def Let_def)
qed

lemma updatedDrafts_existing:
  assumes "Some (or_undef_str (id_draft (data s)) newId) \<in> id_draft ` set (savedDrafts s)"
  shows "\<exists>k<length (savedDrafts s).
           id_draft (savedDrafts s ! k) = Some (or_undef_str (id_draft (data s)) newId)
         \<and> (\<forall>j<k. id_draft (savedDrafts s ! j) \<noteq> Some (or_undef_str (id_draft (data s)) newId))
         \<and> updatedDrafts newId now s = (savedDrafts s)[k := draftToSave newId now (data s)]"
proof -
  let ?P = "\<lambda>d. id_draft d = Some (or_undef_str (id_draft (data s)) newId)"
  have "\<exists>d\<in>set (savedDrafts s). ?P d" using assms by auto
  from findIndexFrom_some [OF this, of 0] obtain k where k: "k < length (savedDrafts s)"
    "findIndexFrom ?P 0 (savedDrafts s) = 0 + int k" "?P (savedDrafts s ! k)"
    "\<forall>j<k. \<not> ?P (savedDrafts s ! j)" by blast
  have "updatedDrafts newId now s = (savedDrafts s)[k := draftToSave newId now (data s)]"
    using k(2) by (simp add: updatedDrafts_def findIndex_def Let_def)
  with k show ?thesis by blast
qed

lemma handleSaveDraft_write:
  "(accepts ls ''invoiceDrafts'' (stringify (updatedDrafts newId now s)) \<longrightarrow>
      snd (handleSaveDraft accepts stringify newId now (s, ls)) = ls(''invoiceDrafts'' \<mapsto> stringify (updatedDrafts newId now s))
    \<and> data (fst (handleSaveDraft accepts stringify newId now (s, ls))) = draftToSave newId now (data s))
   \<and> (\<not> accepts ls ''invoiceDrafts'' (stringify (updatedDrafts newId now s)) \<longrightarrow>
      snd (handleSaveDraft accepts stringify newId now (s, ls)) = ls \<and> data (fst (handleSaveDraft accepts stringify newId now (s, ls))) = data s)"
  by (simp add: handleSaveDraft_def setItem_def)

text \<open>
  C2, as the claim states it, fails when \<^verbatim>\<open>generateId()\<close> returns an id that a stored draft
  already has: nothing in the code checks the generated id. A document with no id is
  then saved over the stored draft (here the draft of the customer Acme), and the
  collection keeps its length of one.
\<close>

theorem handleSaveDraft_collision_counterexample:
  "id_draft (data ((initialEditor ''01/02/2025'')
         \<lparr>savedDrafts := [(initialData ''01/02/2025'')
            \<lparr>id_draft := Some ''k3j9x0q1z'', customerName := ''Acme''\<rparr>]\<rparr>)) = None
   \<and> map id_draft (savedDrafts ((initialEditor ''01/02/2025'')
         \<lparr>savedDrafts := [(initialData ''01/02/2025'')
            \<lparr>id_draft := Some ''k3j9x0q1z'', customerName := ''Acme''\<rparr>]\<rparr>)) = [Some ''k3j9x0q1z'']
   \<and> map customerName (savedDrafts ((initialEditor ''01/02/2025'')
         \<lparr>savedDrafts := [(initialData ''01/02/2025'')
            \<lparr>id_draft := Some ''k3j9x0q1z'', customerName := ''Acme''\<rparr>]\<rparr>)) = [''Acme'']
   \<and> length (savedDrafts (fst (handleSaveDraft unlimited (\<lambda>ds. []) ''k3j9x0q1z''
        ''1/2/2025, 10:00:00 AM'' (((initialEditor ''01/02/2025'')
         \<lparr>savedDrafts := [(initialData ''01/02/2025'')
            \<lparr>id_draft := Some ''k3j9x0q1z'', customerName := ''Acme''\<rparr>]\<rparr>), Map.empty)))) = 1
   \<and> map customerName (savedDrafts (fst (handleSaveDraft unlimited (\<lambda>ds. []) ''k3j9x0q1z''
        ''1/2/2025, 10:00:00 AM'' (((initialEditor ''01/02/2025'')
         \<lparr>savedDrafts := [(initialData ''01/02/2025'')
            \<lparr>id_draft := Some ''k3j9x0q1z'', customerName := ''Acme''\<rparr>]\<rparr>), Map.empty)))) = [''Customer name :'']"
  by (simp add: handleSaveDraft_def setItem_def unlimited_def updatedDrafts_def draftToSave_def
      findIndex_def or_undef_str_def initialEditor_def initialData_def)

text \<open>
  C2, amended. The saved entry is the document with its id set to the draft id and
  \<^verbatim>\<open>savedAt\<close> to the current time; the draft id is the id of the document when that is
  not empty, and the generated id when the document has no id or an empty one.
  If an entry of the collection has the draft id (a draft that was saved before, or a
  generated id that collides with a stored one), the first such entry is replaced in
  place: the length of the collection and its list of ids are unchanged. Otherwise the
  entry is put in front of the collection, which grows by exactly one entry. The new
  collection is the state in both cases; it is written to the store, and the document
  in the editor becomes the saved entry, when the store accepts the write.
\<close>

theorem handleSaveDraft_upsert:
  "savedDrafts (fst (handleSaveDraft accepts stringify newId now (s, ls))) = updatedDrafts newId now s
   \<and> draftToSave newId now (data s) = (data s)\<lparr>id_draft := Some (or_undef_str (id_draft (data s)) newId), savedAt := Some now\<rparr>
   \<and> (\<forall>i. id_draft (data s) = Some i \<and> i \<noteq> [] \<longrightarrow> or_undef_str (id_draft (data s)) newId = i)
   \<and> (id_draft (data s) = None \<or> id_draft (data s) = Some [] \<longrightarrow> or_undef_str (id_draft (data s)) newId = newId)
   \<and> (Some (or_undef_str (id_draft (data s)) newId) \<in> id_draft ` set (savedDrafts s) \<longrightarrow>
          length (updatedDrafts newId now s) = length (savedDrafts s)
        \<and> map id_draft (updatedDrafts newId now s) = map id_draft (savedDrafts s)
        \<and> (\<exists>k<length (savedDrafts s).
              id_draft (savedDrafts s ! k) = Some (or_undef_str (id_draft (data s)) newId)
            \<and> (\<forall>j<k. id_draft (savedDrafts s ! j) \<noteq> Some (or_undef_str (id_draft (data s)) newId))
            \<and> updatedDrafts newId now s = (savedDrafts s)[k := draftToSave newId now (data s)]))
   \<and> (Some (or_undef_str (id_draft (data s)) newId) \<notin> id_draft ` set (savedDrafts s) \<longrightarrow>
          updatedDrafts newId now s = draftToSave newId now (data s) # savedDrafts s
        \<and> length (updatedDrafts newId now s) = Suc (length (savedDrafts s)))
   \<and> (accepts ls ''invoiceDrafts'' (stringify (updatedDrafts newId now s)) \<longrightarrow>
          snd (handleSaveDraft accepts stringify newId now (s, ls)) = ls(''invoiceDrafts'' \<mapsto> stringify (updatedDrafts newId now s))
        \<and> data (fst (handleSaveDraft accepts stringify newId now (s, ls))) = draftToSave newId now (data s))
   \<and> (\<not> accepts ls ''invoiceDrafts'' (stringify (updatedDrafts newId now s)) \<longrightarrow>
          snd (handleSaveDraft accepts stringify newId now (s, ls)) = ls \<and> data (fst (handleSaveDraft accepts stringify newId now (s, ls))) = data s)"
proof -
  have st: "savedDrafts (fst (handleSaveDraft accepts stringify newId now (s, ls))) = updatedDrafts newId now s"
    by (simp add: handleSaveDraft_def split: option.splits)
  have entry: "draftToSave newId now (data s)
      = (data s)\<lparr>id_draft := Some (or_undef_str (id_draft (data s)) newId), savedAt := Some now\<rparr>"
    by (simp add: draftToSave_def)
  have own: "\<forall>i. id_draft (data s) = Some i \<and> i \<noteq> [] \<longrightarrow> or_undef_str (id_draft (data s)) newId = i"
    by (simp add: or_undef_str_def or_str_def)
  have gen: "id_draft (data s) = None \<or> id_draft (data s) = Some [] \<longrightarrow> or_undef_str (id_draft (data s)) newId = newId"
    by (auto simp add: or_undef_str_def or_str_def)
  have existing: "length (updatedDrafts newId now s) = length (savedDrafts s)
        \<and> map id_draft (updatedDrafts newId now s) = map id_draft (savedDrafts s)
        \<and> (\<exists>k<length (savedDrafts s).
              id_draft (savedDrafts s ! k) = Some (or_undef_str (id_draft (data s)) newId)
            \<and> (\<forall>j<k. id_draft (savedDrafts s ! j) \<noteq> Some (or_undef_str (id_draft (data s)) newId))
            \<and> updatedDrafts newId now s = (savedDrafts s)[k := draftToSave newId now (data s)])"
    if "Some (or_undef_str (id_draft (data s)) newId) \<in> id_draft ` set (savedDrafts s)"
  proof -
    from updatedDrafts_existing [OF that, of now] obtain k where k: "k < length (savedDrafts s)"
      "id_draft (savedDrafts s ! k) = Some (or_undef_str (id_draft (data s)) newId)"
      "\<forall>j<k. id_draft (savedDrafts s ! j) \<noteq> Some (or_undef_str (id_draft (data s)) newId)"
      "updatedDrafts newId now s = (savedDrafts s)[k := draftToSave newId now (data s)]"
      by blast
    have len: "length (updatedDrafts newId now s) = length (savedDrafts s)"
      using k(4) by simp
    have "map id_draft (updatedDrafts newId now s)
        = (map id_draft (savedDrafts s))[k := id_draft (draftToSave newId now (data s))]"
      using k(4) by (simp add: map_update)
    also have "\<dots> = (map id_draft (savedDrafts s))[k := map id_draft (savedDrafts s) ! k]"
      using k(1,2) by (simp add: draftToSave_def)
    also have "\<dots> = map id_draft (savedDrafts s)"
      by (rule list_update_id)
    finally have ids: "map id_draft (updatedDrafts newId now s) = map id_draft (savedDrafts s)" .
    from len ids k show ?thesis by blast
  qed
  have fresh: "updatedDrafts newId now s = draftToSave newId now (data s) # savedDrafts s
        \<and> length (updatedDrafts newId now s) = Suc (length (savedDrafts s))"
    if "Some (or_undef_str (id_draft (data s)) newId) \<notin> id_draft ` set (savedDrafts s)"
    using updatedDrafts_new [OF that, of now] by simp
  from st entry own gen existing fresh handleSaveDraft_write [of accepts ls stringify newId now s]
  show ?thesis by blast
qed

theorem handleSaveDraft_upsert_witness:
  "id_draft (data (initialEditor ''01/02/2025'')) = None
   \<and> Some ''k3j9x0q1z'' \<notin> id_draft ` set (savedDrafts (initialEditor ''01/02/2025''))
   \<and> length (updatedDrafts ''k3j9x0q1z'' ''t1'' (initialEditor ''01/02/2025'')) = 1
   \<and> id_draft (data ((initialEditor ''01/02/2025'')
         \<lparr>data := (initialData ''01/02/2025'')\<lparr>id_draft := Some ''k3j9x0q1z''\<rparr>,
          savedDrafts := [(initialData ''01/02/2025'')\<lparr>id_draft := Some ''k3j9x0q1z''\<rparr>]\<rparr>)) = Some ''k3j9x0q1z''
   \<and> Some ''k3j9x0q1z'' \<in> id_draft ` set (savedDrafts ((initialEditor ''01/02/2025'')
         \<lparr>data := (initialData ''01/02/2025'')\<lparr>id_draft := Some ''k3j9x0q1z''\<rparr>,
          savedDrafts := [(initialData ''01/02/2025'')\<lparr>id_draft := Some ''k3j9x0q1z''\<rparr>]\<rparr>))
   \<and> length (updatedDrafts ''zzz'' ''t2'' ((initialEditor ''01/02/2025'')
         \<lparr>data := (initialData ''01/02/2025'')\<lparr>id_draft := Some ''k3j9x0q1z''\<rparr>,
          savedDrafts := [(initialData ''01/02/2025'')\<lparr>id_draft := Some ''k3j9x0q1z''\<rparr>]\<rparr>)) = 1
   \<and> id_draft (data ((initialEditor ''01/02/2025'')
         \<lparr>savedDrafts := [(initialData ''01/02/2025'')
            \<lparr>id_draft := Some ''k3j9x0q1z'', customerName := ''Acme''\<rparr>]\<rparr>)) = None
   \<and> Some ''k3j9x0q1z'' \<in> id_draft ` set (savedDrafts ((initialEditor ''01/02/2025'')
         \<lparr>savedDrafts := [(initialData ''01/02/2025'')
            \<lparr>id_draft := Some ''k3j9x0q1z'', customerName := ''Acme''\<rparr>]\<rparr>))
   \<and> length (updatedDrafts ''k3j9x0q1z'' ''t3'' ((initialEditor ''01/02/2025'')
         \<lparr>savedDrafts := [(initialData ''01/02/2025'')
            \<lparr>id_draft := Some ''k3j9x0q1z'', customerName := ''Acme''\<rparr>]\<rparr>)) = 1
   \<and> unlimited Map.empty ''invoiceDrafts'' []
   \<and> snd (handleSaveDraft unlimited (\<lambda>ds. []) ''k3j9x0q1z'' ''t1''
            (initialEditor ''01/02/2025'', Map.empty)) ''invoiceDrafts'' = Some []
   \<and> \<not> (\<lambda>st k v. False) (Map.empty :: storage) ''invoiceDrafts'' []
   \<and> snd (handleSaveDraft (\<lambda>st k v. False) (\<lambda>ds. []) ''k3j9x0q1z'' ''t1''
            (initialEditor ''01/02/2025'', Map.empty)) ''invoiceDrafts'' = None"
proof -
  let ?s0 = "initialEditor ''01/02/2025''"
  let ?s1 = "((initialEditor ''01/02/2025'')
         \<lparr>data := (initialData ''01/02/2025'')\<lparr>id_draft := Some ''k3j9x0q1z''\<rparr>,
          savedDrafts := [(initialData ''01/02/2025'')\<lparr>id_draft := Some ''k3j9x0q1z''\<rparr>]\<rparr>)"
  let ?s2 = "((initialEditor ''01/02/2025'')
         \<lparr>savedDrafts := [(initialData ''01/02/2025'')
            \<lparr>id_draft := Some ''k3j9x0q1z'', customerName := ''Acme''\<rparr>]\<rparr>)"
  note t0 = handleSaveDraft_upsert [where s = ?s0 and newId = "''k3j9x0q1z''" and now = "''t1''"
      and stringify = "\<lambda>ds. []" and ls = Map.empty and accepts = unlimited]
  note t0' = handleSaveDraft_upsert [where s = ?s0 and newId = "''k3j9x0q1z''" and now = "''t1''"
      and stringify = "\<lambda>ds. []" and ls = Map.empty and accepts = "\<lambda>st k v. False"]
  note t1 = handleSaveDraft_upsert [where s = ?s1 and newId = "''zzz''" and now = "''t2''"
      and stringify = "\<lambda>ds. []" and ls = Map.empty and accepts = unlimited]
  note t2 = handleSaveDraft_upsert [where s = ?s2 and newId = "''k3j9x0q1z''" and now = "''t3''"
      and stringify = "\<lambda>ds. []" and ls = Map.empty and accepts = unlimited]
  have a: "id_draft (data ?s0) = None"
    by (simp add: initialEditor_def initialData_def)
  have b: "Some ''k3j9x0q1z'' \<notin> id_draft ` set (savedDrafts ?s0)"
    by (simp add: initialEditor_def)
  from t0 a have g0: "or_undef_str (id_draft (data ?s0)) ''k3j9x0q1z'' = ''k3j9x0q1z''"
    by blast
  from t0 b have "length (updatedDrafts ''k3j9x0q1z'' ''t1'' ?s0) = Suc (length (savedDrafts ?s0))"
    unfolding g0 by blast
  then have c: "length (updatedDrafts ''k3j9x0q1z'' ''t1'' ?s0) = 1"
    by (simp add: initialEditor_def)
  have d: "id_draft (data ?s1) = Some ''k3j9x0q1z''" "''k3j9x0q1z'' \<noteq> []"
    by simp_all
  have e: "Some ''k3j9x0q1z'' \<in> id_draft ` set (savedDrafts ?s1)"
    by simp
  from t1 d have g1: "or_undef_str (id_draft (data ?s1)) ''zzz'' = ''k3j9x0q1z''"
    by blast
  from t1 e have "length (updatedDrafts ''zzz'' ''t2'' ?s1) = length (savedDrafts ?s1)"
    unfolding g1 by blast
  then have f: "length (updatedDrafts ''zzz'' ''t2'' ?s1) = 1"
    by simp
  have h: "id_draft (data ?s2) = None"
    by (simp add: initialEditor_def initialData_def)
  have i: "Some ''k3j9x0q1z'' \<in> id_draft ` set (savedDrafts ?s2)"
    by simp
  from t2 h have g2: "or_undef_str (id_draft (data ?s2)) ''k3j9x0q1z'' = ''k3j9x0q1z''"
    by blast
  from t2 i have "length (updatedDrafts ''k3j9x0q1z'' ''t3'' ?s2) = length (savedDrafts ?s2)"
    unfolding g2 by blast
  then have j: "length (updatedDrafts ''k3j9x0q1z'' ''t3'' ?s2) = 1"
    by simp
  have k: "unlimited Map.empty ''invoiceDrafts'' []"
    by (simp add: unlimited_def)
  have "unlimited Map.empty ''invoiceDrafts''
      ((\<lambda>ds. []) (updatedDrafts ''k3j9x0q1z'' ''t1'' ?s0))"
    by (simp add: unlimited_def)
  with t0 have "snd (handleSaveDraft unlimited (\<lambda>ds. []) ''k3j9x0q1z'' ''t1'' (?s0, Map.empty))
      = Map.empty(''invoiceDrafts'' \<mapsto> (\<lambda>ds. []) (updatedDrafts ''k3j9x0q1z'' ''t1'' ?s0))"
    by blast
  then have l: "snd (handleSaveDraft unlimited (\<lambda>ds. []) ''k3j9x0q1z'' ''t1'' (?s0, Map.empty))
      ''invoiceDrafts'' = Some []"
    by simp
  have "\<not> (\<lambda>st k v. False) (Map.empty :: storage) ''invoiceDrafts''
      ((\<lambda>ds. []) (updatedDrafts ''k3j9x0q1z'' ''t1'' ?s0))"
    by simp
  with t0' have "snd (handleSaveDraft (\<lambda>st k v. False) (\<lambda>ds. []) ''k3j9x0q1z'' ''t1''
      (?s0, Map.empty)) = Map.empty"
    by blast
  then have m: "snd (handleSaveDraft (\<lambda>st k v. False) (\<lambda>ds. []) ''k3j9x0q1z'' ''t1''
      (?s0, Map.empty)) ''invoiceDrafts'' = None"
    by simp
  from a b c d(1) e f h i j k l m show ?thesis by simp
qed



subsection \<open>Numeric inputs\<close>

lemma or_num_zero_number:
  "or_num x 0 \<noteq> NaN \<and> (\<exists>r. or_num x 0 = Num r)
   \<and> or_num x 0 = (if truthy_num x then x else Num 0)"
  by (cases x) (simp_all add: or_num_def truthy_num_def zero_jsnum_def)

lemma updateItem_items:
  "items (data (updateItem i fv s))
     = map (\<lambda>item. if id_item item = i then setField fv item else item) (items (data s))"
  by (simp add: updateItem_def)

lemma updateItem_price:
  assumes "item \<in> set (items (data (updateItem i (Field_price x) s)))" "id_item item = i"
  shows "price_item item = x"
proof -
  from assms(1) obtain y where y: "y \<in> set (items (data s))"
    "item = (if id_item y = i then setField (Field_price x) y else y)"
    unfolding updateItem_items by auto
  show ?thesis
  proof (cases "id_item y = i")
    case True
    with y(2) show ?thesis by simp
  next
    case False
    with y(2) assms(2) show ?thesis by simp
  qed
qed

lemma updateItem_qty:
  assumes "item \<in> set (items (data (updateItem i (Field_qty x) s)))" "id_item item = i"
  shows "qty item = x"
proof -
  from assms(1) obtain y where y: "y \<in> set (items (data s))"
    "item = (if id_item y = i then setField (Field_qty x) y else y)"
    unfolding updateItem_items by auto
  show ?thesis
  proof (cases "id_item y = i")
    case True
    with y(2) show ?thesis by simp
  next
    case False
    with y(2) assms(2) show ?thesis by simp
  qed
qed

text \<open>
  C10. The value that each of the four numeric inputs stores (the price and the quantity
  of the item row, the tax rate, the price in the edit dialog) is
  \<^verbatim>\<open>parseFloat(text) || 0\<close>: it is a number and never \<^verbatim>\<open>NaN\<close>, it is \<^verbatim>\<open>parseFloat(text)\<close>
  when that is truthy and 0 otherwise, so a text that does not parse to a number gives 0.
  This holds for every text and whatever \<^verbatim>\<open>parseFloat\<close> makes of it.
\<close>

theorem numeric_inputs_never_NaN:
  "(\<forall>item\<in>set (items (data (priceInput_onChange parseFloat i v s))).
      id_item item = i \<longrightarrow> price_item item = or_num (parseFloat v) 0)
   \<and> (\<forall>item\<in>set (items (data (qtyInput_onChange parseFloat i v s))).
      id_item item = i \<longrightarrow> qty item = or_num (parseFloat v) 0)
   \<and> taxRate (taxRateInput_onChange parseFloat v st) = or_num (parseFloat v) 0
   \<and> price_product (editPriceInput_onChange parseFloat v p) = or_num (parseFloat v) 0
   \<and> or_num (parseFloat v) 0 \<noteq> NaN
   \<and> (\<exists>r. or_num (parseFloat v) 0 = Num r)
   \<and> or_num (parseFloat v) 0 = (if truthy_num (parseFloat v) then parseFloat v else Num 0)
   \<and> (parseFloat v = NaN \<longrightarrow> or_num (parseFloat v) 0 = Num 0)"
proof (intro conjI)
  show "\<forall>item\<in>set (items (data (priceInput_onChange parseFloat i v s))).
      id_item item = i \<longrightarrow> price_item item = or_num (parseFloat v) 0"
    unfolding priceInput_onChange_def using updateItem_price by blast
  show "\<forall>item\<in>set (items (data (qtyInput_onChange parseFloat i v s))).
      id_item item = i \<longrightarrow> qty item = or_num (parseFloat v) 0"
    unfolding qtyInput_onChange_def using updateItem_qty by blast
  show "taxRate (taxRateInput_onChange parseFloat v st) = or_num (parseFloat v) 0"
    by (simp add: taxRateInput_onChange_def)
  show "price_product (editPriceInput_onChange parseFloat v p) = or_num (parseFloat v) 0"
    by (simp add: editPriceInput_onChange_def)
  show "or_num (parseFloat v) 0 \<noteq> NaN"
    using or_num_zero_number [of "parseFloat v"] by blast
  show "\<exists>r. or_num (parseFloat v) 0 = Num r"
    using or_num_zero_number [of "parseFloat v"] by blast
  show "or_num (parseFloat v) 0 = (if truthy_num (parseFloat v) then parseFloat v else Num 0)"
    using or_num_zero_number [of "parseFloat v"] by blast
  show "parseFloat v = NaN \<longrightarrow> or_num (parseFloat v) 0 = Num 0"
    by (simp add: or_num_def truthy_num_def zero_jsnum_def)
qed

theorem numeric_inputs_never_NaN_witness:
  "map id_item (items (data (priceInput_onChange (\<lambda>t. if t = ''12.5'' then Num 12.5 else NaN)
       ''r1'' ''abc'' (addItem ''r1'' None (initialEditor ''01/02/2025''))))) = [''r1'']
   \<and> map price_item (items (data (priceInput_onChange (\<lambda>t. if t = ''12.5'' then Num 12.5 else NaN)
       ''r1'' ''abc'' (addItem ''r1'' None (initialEditor ''01/02/2025''))))) = [Num 0]
   \<and> map qty (items (data (qtyInput_onChange (\<lambda>t. if t = ''12.5'' then Num 12.5 else NaN)
       ''r1'' ''abc'' (addItem ''r1'' None (initialEditor ''01/02/2025''))))) = [Num 0]
   \<and> (\<lambda>t. if t = ''12.5'' then Num 12.5 else NaN) ''abc'' = NaN
   \<and> or_num ((\<lambda>t. if t = ''12.5'' then Num 12.5 else NaN) ''abc'') 0 = Num 0
   \<and> or_num ((\<lambda>t. if t = ''12.5'' then Num 12.5 else NaN) ''12.5'') 0 = Num 12.5"
proof -
  let ?pf = "\<lambda>t. if t = ''12.5'' then Num 12.5 else NaN"
  let ?s = "addItem ''r1'' None (initialEditor ''01/02/2025'')"
  have ids: "map id_item (items (data (priceInput_onChange ?pf ''r1'' ''abc'' ?s))) = [''r1'']"
    by (simp add: priceInput_onChange_def updateItem_def addItem_def initialEditor_def
        initialData_def)
  have qids: "map id_item (items (data (qtyInput_onChange ?pf ''r1'' ''abc'' ?s))) = [''r1'']"
    by (simp add: qtyInput_onChange_def updateItem_def addItem_def initialEditor_def
        initialData_def)
  note th = numeric_inputs_never_NaN [where parseFloat = ?pf and i = "''r1''" and v = "''abc''"
      and s = ?s and st = initialSettings
      and p = "\<lparr>id_product = [], code = [], name = [], description_product = [],
                 price_product = 0, image_product = None\<rparr>"]
  have nan: "?pf ''abc'' = NaN" by simp
  from th nan have zero: "or_num (?pf ''abc'') 0 = Num 0" by blast
  have len1: "length (items (data (priceInput_onChange ?pf ''r1'' ''abc'' ?s))) = 1"
    using arg_cong [OF ids, of length] by simp
  have len2: "length (items (data (qtyInput_onChange ?pf ''r1'' ''abc'' ?s))) = 1"
    using arg_cong [OF qids, of length] by simp
  have prices: "map price_item (items (data (priceInput_onChange ?pf ''r1'' ''abc'' ?s))) = [Num 0]"
  proof -
    obtain x where x: "items (data (priceInput_onChange ?pf ''r1'' ''abc'' ?s)) = [x]"
      using len1 by (auto simp add: length_Suc_conv)
    with ids have "id_item x = ''r1''" by simp
    moreover from th x have "id_item x = ''r1'' \<longrightarrow> price_item x = or_num (?pf ''abc'') 0"
      by auto
    ultimately show ?thesis using x zero by simp
  qed
  have qtys: "map qty (items (data (qtyInput_onChange ?pf ''r1'' ''abc'' ?s))) = [Num 0]"
  proof -
    obtain x where x: "items (data (qtyInput_onChange ?pf ''r1'' ''abc'' ?s)) = [x]"
      using len2 by (auto simp add: length_Suc_conv)
    with qids have "id_item x = ''r1''" by simp
    moreover from th x have "id_item x = ''r1'' \<longrightarrow> qty x = or_num (?pf ''abc'') 0"
      by auto
    ultimately show ?thesis using x zero by simp
  qed
  have some: "or_num (?pf ''12.5'') 0 = Num 12.5"
    by (simp add: or_num_def truthy_num_def)
  from ids prices qtys nan zero some show ?thesis by blast
qed

subsection \<open>The catalog\<close>

lemma or_str_empty: "or_str a [] = a"
  by (simp add: or_str_def)

lemma handleDelete_frame:
  "invoiceEditor (inInventory (handleDelete accepts stringify i confirmed) app) = invoiceEditor app
   \<and> localStorage (inInventory (handleDelete accepts stringify i confirmed) app) ''invoiceDrafts''
       = localStorage app ''invoiceDrafts''"
  by (simp add: inInventory_def handleDelete_def saveProducts_def setItem_def)

lemma addItem_from_product:
  "items (data (addItem newId (Some p) e))
     = items (data e)
       @ [\<lparr>id_item = newId, productId = Some (id_product p),
            description_item = name p @ '' - '' @ description_product p,
            itemCode = code p, price_item = or_num (price_product p) 0, qty = 1,
            image_item = image_product p\<rparr>]"
  by (simp add: addItem_def or_str_empty)

text \<open>
  C4. Deleting a product from the catalog leaves the state of the invoice editor, with
  every field of every invoice item, and the stored drafts as they were. In particular
  an item that \<^verbatim>\<open>addItem\<close> made from a product \<open>p\<close> still holds the values it copied from
  \<open>p\<close> (its id, code, name and description, price, image) after \<open>p\<close> is deleted.
\<close>

theorem handleDelete_keeps_invoice_items:
  "invoiceEditor (inInventory (handleDelete accepts stringify i confirmed) app) = invoiceEditor app
   \<and> localStorage (inInventory (handleDelete accepts stringify i confirmed) app) ''invoiceDrafts''
       = localStorage app ''invoiceDrafts''
   \<and> items (data (invoiceEditor
         (inInventory (handleDelete accepts stringify (id_product p) confirmed)
            (inInvoiceEditor (\<lambda>(e, ls). (addItem newId (Some p) e, ls)) app))))
       = items (data (invoiceEditor app))
         @ [\<lparr>id_item = newId, productId = Some (id_product p),
              description_item = name p @ '' - '' @ description_product p,
              itemCode = code p, price_item = or_num (price_product p) 0, qty = 1,
              image_item = image_product p\<rparr>]"
proof -
  have "invoiceEditor (inInvoiceEditor (\<lambda>(e, ls). (addItem newId (Some p) e, ls)) app)
      = addItem newId (Some p) (invoiceEditor app)"
    by (simp add: inInvoiceEditor_def)
  then show ?thesis
    by (simp only: handleDelete_frame addItem_from_product simp_thms)
qed

lemma length_newItems: "length (newItems env f base64Data raws) = length raws"
  by (simp add: newItems_def)

lemma newItems_nth:
  "i < length raws \<Longrightarrow>
     newItems env f base64Data raws ! i = toProduct f base64Data (generateId env i) (raws ! i)"
  by (simp add: newItems_def nth_enumerate_eq)

lemma toProduct_fields:
  "id_product (toProduct f base64Data newId p) = newId
   \<and> code (toProduct f base64Data newId p)
       = (case code_raw p of None \<Rightarrow> ''N/A'' | Some c \<Rightarrow> if c = [] then ''N/A'' else c)
   \<and> name (toProduct f base64Data newId p)
       = (case name_raw p of None \<Rightarrow> placeholderName
          | Some n \<Rightarrow> if n = [] then placeholderName else n)
   \<and> description_product (toProduct f base64Data newId p)
       = (case description_raw p of None \<Rightarrow> [] | Some d \<Rightarrow> d)
   \<and> price_product (toProduct f base64Data newId p)
       = (case price_raw p of None \<Rightarrow> Num 0 | Some x \<Rightarrow> if truthy_num x then x else Num 0)
   \<and> image_product (toProduct f base64Data newId p)
       = (if \<not> isWord f \<and> base64Data \<noteq> [] \<and> prefix ''image'' (type_file f) then Some base64Data else None)"
  by (simp add: toProduct_def or_undef_str_def or_str_def or_undef_num_def or_num_def
      zero_jsnum_def split: option.splits)

lemma readParts_base64Data:
  "readParts env f = Inr (parts, base64Data) \<Longrightarrow>
     (if isWord f then base64Data = [] else fileToBase64 env f = Inr base64Data)"
  by (auto simp add: readParts_def split: sum.splits if_splits)






lemma tryBlock_saved:
  assumes "readParts env f = Inr (parts, base64Data)"
    "generateContent env parts = Inr (Some answer)" "answer \<noteq> []"
    "JSON_parse env answer = Inr (Some raws)"
  shows "tryBlock accepts env stringify f (s, ls)
      = (if accepts ls ''products'' (stringify (products s @ newItems env f base64Data raws))
         then (((if isWord f then s\<lparr>uploadStatus := Status_reading_word\<rparr> else s)
                  \<lparr>products := products s @ newItems env f base64Data raws, uploadStatus := Status_extracted (length raws)\<rparr>,
                ls(''products'' \<mapsto> stringify (products s @ newItems env f base64Data raws))), None)
         else (((if isWord f then s\<lparr>uploadStatus := Status_reading_word\<rparr> else s)
                  \<lparr>products := products s @ newItems env f base64Data raws\<rparr>, ls), Some StorageWriteFailed))"
  using assms
  by (simp add: tryBlock_def Let_def saveProducts_def setItem_def or_undef_str_def or_str_def
      length_newItems)


lemma handleFileUpload_saved:
  assumes "API_KEY env = Some k \<and> k \<noteq> []"
    "readParts env f = Inr (parts, base64Data)"
    "generateContent env parts = Inr (Some answer)" "answer \<noteq> []"
    "JSON_parse env answer = Inr (Some raws)"
  shows "products (fst (handleFileUpload accepts env stringify (Some f) (s, ls))) = products s @ newItems env f base64Data raws
       \<and> isUploading (fst (handleFileUpload accepts env stringify (Some f) (s, ls))) = False
       \<and> (accepts ls ''products'' (stringify (products s @ newItems env f base64Data raws)) \<longrightarrow>
            snd (handleFileUpload accepts env stringify (Some f) (s, ls)) = ls(''products'' \<mapsto> stringify (products s @ newItems env f base64Data raws))
          \<and> uploadStatus (fst (handleFileUpload accepts env stringify (Some f) (s, ls))) = Status_extracted (length raws))
       \<and> (\<not> accepts ls ''products'' (stringify (products s @ newItems env f base64Data raws)) \<longrightarrow>
            snd (handleFileUpload accepts env stringify (Some f) (s, ls)) = ls \<and> uploadStatus (fst (handleFileUpload accepts env stringify (Some f) (s, ls))) = Status_error)"
  using assms(1) tryBlock_saved [OF assms(2-5), of accepts stringify "s\<lparr>isUploading := True, uploadStatus := Status_analysing\<rparr>" ls]
  by (simp add: handleFileUpload_def or_undef_str_def or_str_def)





text \<open>
  C6, the part of the claim that fails. \<^verbatim>\<open>generateId()\<close> is
  \<^verbatim>\<open>Math.random().toString(36).substr(2, 9)\<close>, and nothing compares what it draws with the
  ids of the catalog or of the batch. When \<^verbatim>\<open>Math.random()\<close> gives 0.5 every time, every
  id is \<^verbatim>\<open>i\<close> (0.5 is \<^verbatim>\<open>0.i\<close> in base 36): with a catalog that holds a product of id \<^verbatim>\<open>i\<close>,
  uploading the sample picture ends with three products of that one id.
\<close>

theorem handleFileUpload_repeated_id_counterexample:
  "map id_product (products (fst (handleFileUpload unlimited (sample_env\<lparr>generateId := \<lambda>n. ''i''\<rparr>) (\<lambda>ps. [])
        (Some sample_picture) (sample_inventory\<lparr>products := [\<lparr>id_product = ''i'', code = ''B-7'', name = ''Vase'',
          description_product = [], price_product = Num 12, image_product = None\<rparr>]\<rparr>, Map.empty))))
     = [''i'', ''i'', ''i'']"
proof -
  have nw: "\<not> isWord sample_picture"
    by (simp add: isWord_def sample_picture_def docxMimeType_def suffix_to_prefix)
  have k: "API_KEY (sample_env\<lparr>generateId := \<lambda>n. ''i''\<rparr>) = Some ''key'' \<and> ''key'' \<noteq> []"
    by (simp add: sample_env_def)
  have rp: "readParts (sample_env\<lparr>generateId := \<lambda>n. ''i''\<rparr>) sample_picture = Inr ([InlineData_part ''image/png'' (Some ''iVBORw0KGgo=''), Text_part fileInstruction], ''data:image/png;base64,iVBORw0KGgo='')"
    using nw by (simp add: readParts_def sample_env_def sample_picture_def at_index_def)
  have gc: "generateContent (sample_env\<lparr>generateId := \<lambda>n. ''i''\<rparr>) [InlineData_part ''image/png'' (Some ''iVBORw0KGgo=''), Text_part fileInstruction] = Inr (Some sample_response_text)"
    by (simp add: sample_env_def)
  have ne: "sample_response_text \<noteq> []"
    by (simp add: sample_response_text_def)
  have jp: "JSON_parse (sample_env\<lparr>generateId := \<lambda>n. ''i''\<rparr>) sample_response_text = Inr (Some sample_entries)"
    by (simp add: sample_env_def)
  from handleFileUpload_saved [OF k rp gc ne jp, of unlimited "\<lambda>ps. []" "sample_inventory\<lparr>products := [\<lparr>id_product = ''i'', code = ''B-7'', name = ''Vase'',
          description_product = [], price_product = Num 12, image_product = None\<rparr>]\<rparr>" Map.empty]
  have "products (fst (handleFileUpload unlimited (sample_env\<lparr>generateId := \<lambda>n. ''i''\<rparr>) (\<lambda>ps. [])
        (Some sample_picture) (sample_inventory\<lparr>products := [\<lparr>id_product = ''i'', code = ''B-7'', name = ''Vase'',
          description_product = [], price_product = Num 12, image_product = None\<rparr>]\<rparr>, Map.empty)))
     = products (sample_inventory\<lparr>products := [\<lparr>id_product = ''i'', code = ''B-7'', name = ''Vase'',
          description_product = [], price_product = Num 12, image_product = None\<rparr>]\<rparr>) @ newItems (sample_env\<lparr>generateId := \<lambda>n. ''i''\<rparr>) sample_picture ''data:image/png;base64,iVBORw0KGgo='' sample_entries"
    by blast
  then show ?thesis
    by (simp add: newItems_def toProduct_def sample_entries_def sample_env_def)
qed

text \<open>
  C6, amended. When every step succeeds and the response holds an array of entries, the
  product list of the state becomes the old catalog followed by one product for each
  entry, in order; that list is written to the store and the status reports the number
  of entries when the store accepts the write, and otherwise the store stays as it was
  and the status is the error. The product for the \<open>i\<close>-th entry has the id that the
  \<open>i\<close>-th \<^verbatim>\<open>generateId()\<close> call drew, whatever it is; a missing (or empty) code is \<^verbatim>\<open>N/A\<close>, a
  missing name the placeholder, a missing description the empty string, a missing price
  0; and it carries the uploaded data ''data:image/png;base64,iVBORw0KGgo='' as its image exactly when the file went down
  the image branch (not a Word file) and its type starts with \<^verbatim>\<open>image\<close>; a Word upload
  never attaches an image.
\<close>

theorem handleFileUpload_extracted_products:
  "(API_KEY env = Some k \<and> k \<noteq> [] \<and> readParts env f = Inr (parts, base64Data)
      \<and> generateContent env parts = Inr (Some answer) \<and> answer \<noteq> []
      \<and> JSON_parse env answer = Inr (Some raws) \<longrightarrow>
        products (fst (handleFileUpload accepts env stringify (Some f) (s, ls))) = products s @ newItems env f base64Data raws
      \<and> isUploading (fst (handleFileUpload accepts env stringify (Some f) (s, ls))) = False
      \<and> (accepts ls ''products'' (stringify (products s @ newItems env f base64Data raws)) \<longrightarrow>
           snd (handleFileUpload accepts env stringify (Some f) (s, ls)) = ls(''products'' \<mapsto> stringify (products s @ newItems env f base64Data raws))
         \<and> uploadStatus (fst (handleFileUpload accepts env stringify (Some f) (s, ls))) = Status_extracted (length raws))
      \<and> (\<not> accepts ls ''products'' (stringify (products s @ newItems env f base64Data raws)) \<longrightarrow>
           snd (handleFileUpload accepts env stringify (Some f) (s, ls)) = ls \<and> uploadStatus (fst (handleFileUpload accepts env stringify (Some f) (s, ls))) = Status_error))
   \<and> length (newItems env f base64Data raws) = length raws
   \<and> (\<forall>i<length raws.
         id_product (newItems env f base64Data raws ! i) = generateId env i
       \<and> code (newItems env f base64Data raws ! i)
           = (case code_raw (raws ! i) of None \<Rightarrow> ''N/A''
              | Some c \<Rightarrow> if c = [] then ''N/A'' else c)
       \<and> name (newItems env f base64Data raws ! i)
           = (case name_raw (raws ! i) of None \<Rightarrow> placeholderName
              | Some n \<Rightarrow> if n = [] then placeholderName else n)
       \<and> description_product (newItems env f base64Data raws ! i)
           = (case description_raw (raws ! i) of None \<Rightarrow> [] | Some d \<Rightarrow> d)
       \<and> price_product (newItems env f base64Data raws ! i)
           = (case price_raw (raws ! i) of None \<Rightarrow> Num 0
              | Some x \<Rightarrow> if truthy_num x then x else Num 0)
       \<and> image_product (newItems env f base64Data raws ! i)
           = (if \<not> isWord f \<and> base64Data \<noteq> [] \<and> prefix ''image'' (type_file f)
              then Some base64Data else None))
   \<and> (readParts env f = Inr (parts, base64Data) \<longrightarrow>
         (if isWord f then base64Data = [] else fileToBase64 env f = Inr base64Data))"
proof -
  have run: "(API_KEY env = Some k \<and> k \<noteq> [] \<and> readParts env f = Inr (parts, base64Data)
      \<and> generateContent env parts = Inr (Some answer) \<and> answer \<noteq> []
      \<and> JSON_parse env answer = Inr (Some raws) \<longrightarrow>
        products (fst (handleFileUpload accepts env stringify (Some f) (s, ls))) = products s @ newItems env f base64Data raws
      \<and> isUploading (fst (handleFileUpload accepts env stringify (Some f) (s, ls))) = False
      \<and> (accepts ls ''products'' (stringify (products s @ newItems env f base64Data raws)) \<longrightarrow>
           snd (handleFileUpload accepts env stringify (Some f) (s, ls)) = ls(''products'' \<mapsto> stringify (products s @ newItems env f base64Data raws))
         \<and> uploadStatus (fst (handleFileUpload accepts env stringify (Some f) (s, ls))) = Status_extracted (length raws))
      \<and> (\<not> accepts ls ''products'' (stringify (products s @ newItems env f base64Data raws)) \<longrightarrow>
           snd (handleFileUpload accepts env stringify (Some f) (s, ls)) = ls \<and> uploadStatus (fst (handleFileUpload accepts env stringify (Some f) (s, ls))) = Status_error))"
    using handleFileUpload_saved [of env k f parts base64Data answer raws accepts stringify s ls]
    by blast
  have len: "length (newItems env f base64Data raws) = length raws"
    by (rule length_newItems)
  have each: "\<forall>i<length raws.
         id_product (newItems env f base64Data raws ! i) = generateId env i
       \<and> code (newItems env f base64Data raws ! i)
           = (case code_raw (raws ! i) of None \<Rightarrow> ''N/A''
              | Some c \<Rightarrow> if c = [] then ''N/A'' else c)
       \<and> name (newItems env f base64Data raws ! i)
           = (case name_raw (raws ! i) of None \<Rightarrow> placeholderName
              | Some n \<Rightarrow> if n = [] then placeholderName else n)
       \<and> description_product (newItems env f base64Data raws ! i)
           = (case description_raw (raws ! i) of None \<Rightarrow> [] | Some d \<Rightarrow> d)
       \<and> price_product (newItems env f base64Data raws ! i)
           = (case price_raw (raws ! i) of None \<Rightarrow> Num 0
              | Some x \<Rightarrow> if truthy_num x then x else Num 0)
       \<and> image_product (newItems env f base64Data raws ! i)
           = (if \<not> isWord f \<and> base64Data \<noteq> [] \<and> prefix ''image'' (type_file f)
              then Some base64Data else None)"
    using toProduct_fields by (simp add: newItems_nth)
  have rd: "readParts env f = Inr (parts, base64Data) \<longrightarrow>
         (if isWord f then base64Data = [] else fileToBase64 env f = Inr base64Data)"
    using readParts_base64Data by blast
  from run len each rd show ?thesis by blast
qed

theorem handleFileUpload_extracted_products_witness:
  "API_KEY sample_env = Some ''key''
   \<and> readParts sample_env sample_picture = Inr ([InlineData_part ''image/png'' (Some ''iVBORw0KGgo=''), Text_part fileInstruction], ''data:image/png;base64,iVBORw0KGgo='')
   \<and> generateContent sample_env [InlineData_part ''image/png'' (Some ''iVBORw0KGgo=''), Text_part fileInstruction] = Inr (Some sample_response_text)
   \<and> JSON_parse sample_env sample_response_text = Inr (Some sample_entries)
   \<and> products (fst (handleFileUpload unlimited sample_env (\<lambda>ps. []) (Some sample_picture) (sample_inventory, Map.empty))) = newItems sample_env sample_picture ''data:image/png;base64,iVBORw0KGgo='' sample_entries
   \<and> uploadStatus (fst (handleFileUpload unlimited sample_env (\<lambda>ps. []) (Some sample_picture) (sample_inventory, Map.empty))) = Status_extracted 2
   \<and> snd (handleFileUpload unlimited sample_env (\<lambda>ps. []) (Some sample_picture) (sample_inventory, Map.empty)) ''products'' = Some []
   \<and> length (newItems sample_env sample_picture ''data:image/png;base64,iVBORw0KGgo='' sample_entries) = 2
   \<and> code (newItems sample_env sample_picture ''data:image/png;base64,iVBORw0KGgo='' sample_entries ! 0) = ''A-1''
   \<and> code (newItems sample_env sample_picture ''data:image/png;base64,iVBORw0KGgo='' sample_entries ! 1) = ''N/A''
   \<and> description_product (newItems sample_env sample_picture ''data:image/png;base64,iVBORw0KGgo='' sample_entries ! 1) = []
   \<and> price_product (newItems sample_env sample_picture ''data:image/png;base64,iVBORw0KGgo='' sample_entries ! 1) = Num 0
   \<and> id_product (newItems sample_env sample_picture ''data:image/png;base64,iVBORw0KGgo='' sample_entries ! 1) = generateId sample_env 1
   \<and> image_product (newItems sample_env sample_picture ''data:image/png;base64,iVBORw0KGgo='' sample_entries ! 1) = Some ''data:image/png;base64,iVBORw0KGgo=''"
proof -
  have nw: "\<not> isWord sample_picture"
    by (simp add: isWord_def sample_picture_def docxMimeType_def suffix_to_prefix)
  have k: "API_KEY sample_env = Some ''key'' \<and> ''key'' \<noteq> []"
    by (simp add: sample_env_def)
  have rp: "readParts sample_env sample_picture = Inr ([InlineData_part ''image/png'' (Some ''iVBORw0KGgo=''), Text_part fileInstruction], ''data:image/png;base64,iVBORw0KGgo='')"
    using nw by (simp add: readParts_def sample_env_def sample_picture_def at_index_def)
  have gc: "generateContent sample_env [InlineData_part ''image/png'' (Some ''iVBORw0KGgo=''), Text_part fileInstruction] = Inr (Some sample_response_text)"
    by (simp add: sample_env_def)
  have ne: "sample_response_text \<noteq> []"
    by (simp add: sample_response_text_def)
  have jp: "JSON_parse sample_env sample_response_text = Inr (Some sample_entries)"
    by (simp add: sample_env_def)
  have len: "length sample_entries = 2"
    by (simp add: sample_entries_def)
  note th = handleFileUpload_extracted_products [where env = sample_env and k = "''key''"
      and f = sample_picture and parts = "[InlineData_part ''image/png'' (Some ''iVBORw0KGgo=''), Text_part fileInstruction]" and base64Data = "''data:image/png;base64,iVBORw0KGgo=''"
      and answer = sample_response_text and raws = sample_entries
      and s = sample_inventory and ls = Map.empty and stringify = "\<lambda>ps. []" and accepts = unlimited]
  have ok: "unlimited (Map.empty :: storage) ''products''
      ((\<lambda>ps. []) (products sample_inventory @ newItems sample_env sample_picture ''data:image/png;base64,iVBORw0KGgo='' sample_entries))"
    by (simp add: unlimited_def)
  from th k rp gc ne jp ok
  have run: "products (fst (handleFileUpload unlimited sample_env (\<lambda>ps. []) (Some sample_picture) (sample_inventory, Map.empty))) = products sample_inventory @ newItems sample_env sample_picture ''data:image/png;base64,iVBORw0KGgo='' sample_entries
      \<and> uploadStatus (fst (handleFileUpload unlimited sample_env (\<lambda>ps. []) (Some sample_picture) (sample_inventory, Map.empty))) = Status_extracted (length sample_entries)
      \<and> snd (handleFileUpload unlimited sample_env (\<lambda>ps. []) (Some sample_picture) (sample_inventory, Map.empty)) = Map.empty(''products'' \<mapsto> (\<lambda>ps. []) (products sample_inventory @ newItems sample_env sample_picture ''data:image/png;base64,iVBORw0KGgo='' sample_entries))"
    by blast
  have p: "products (fst (handleFileUpload unlimited sample_env (\<lambda>ps. []) (Some sample_picture) (sample_inventory, Map.empty))) = newItems sample_env sample_picture ''data:image/png;base64,iVBORw0KGgo='' sample_entries" "uploadStatus (fst (handleFileUpload unlimited sample_env (\<lambda>ps. []) (Some sample_picture) (sample_inventory, Map.empty))) = Status_extracted 2"
    "snd (handleFileUpload unlimited sample_env (\<lambda>ps. []) (Some sample_picture) (sample_inventory, Map.empty)) ''products'' = Some []"
    using run len by (simp_all add: sample_inventory_def)
  from th have l: "length (newItems sample_env sample_picture ''data:image/png;base64,iVBORw0KGgo='' sample_entries) = length sample_entries" by blast
  from th have each: "\<forall>i<length sample_entries.
         id_product (newItems sample_env sample_picture ''data:image/png;base64,iVBORw0KGgo='' sample_entries ! i) = generateId sample_env i
       \<and> code (newItems sample_env sample_picture ''data:image/png;base64,iVBORw0KGgo='' sample_entries ! i)
           = (case code_raw (sample_entries ! i) of None \<Rightarrow> ''N/A''
              | Some c \<Rightarrow> if c = [] then ''N/A'' else c)
       \<and> description_product (newItems sample_env sample_picture ''data:image/png;base64,iVBORw0KGgo='' sample_entries ! i)
           = (case description_raw (sample_entries ! i) of None \<Rightarrow> [] | Some d \<Rightarrow> d)
       \<and> price_product (newItems sample_env sample_picture ''data:image/png;base64,iVBORw0KGgo='' sample_entries ! i)
           = (case price_raw (sample_entries ! i) of None \<Rightarrow> Num 0
              | Some x \<Rightarrow> if truthy_num x then x else Num 0)
       \<and> image_product (newItems sample_env sample_picture ''data:image/png;base64,iVBORw0KGgo='' sample_entries ! i)
           = (if \<not> isWord sample_picture \<and> ''data:image/png;base64,iVBORw0KGgo='' \<noteq> []
                 \<and> prefix ''image'' (type_file sample_picture)
              then Some ''data:image/png;base64,iVBORw0KGgo='' else None)"
    by blast
  have img: "prefix ''image'' (type_file sample_picture)"
    by (simp add: sample_picture_def)
  have e0: "code (newItems sample_env sample_picture ''data:image/png;base64,iVBORw0KGgo='' sample_entries ! 0) = ''A-1''"
    using each len by (simp add: sample_entries_def)
  have e1: "code (newItems sample_env sample_picture ''data:image/png;base64,iVBORw0KGgo='' sample_entries ! 1) = ''N/A''" "description_product (newItems sample_env sample_picture ''data:image/png;base64,iVBORw0KGgo='' sample_entries ! 1) = []"
    "price_product (newItems sample_env sample_picture ''data:image/png;base64,iVBORw0KGgo='' sample_entries ! 1) = Num 0" "id_product (newItems sample_env sample_picture ''data:image/png;base64,iVBORw0KGgo='' sample_entries ! 1) = generateId sample_env 1"
    "image_product (newItems sample_env sample_picture ''data:image/png;base64,iVBORw0KGgo='' sample_entries ! 1) = Some ''data:image/png;base64,iVBORw0KGgo=''"
    using each len nw img by (simp_all add: sample_entries_def)
  from k rp gc jp p l len e0 e1 show ?thesis by simp
qed

subsection \<open>Backup, restore and the stored settings\<close>

lemma sample_parse_texts:
  "sample_parse ''[]'' = Some (JArr [])" "sample_parse ''{}'' = Some (JObj [])"
  "sample_parse empty_backup_text = Some empty_backup"
  "sample_parse one_product_text = Some one_product"
  "sample_parse one_product_backup_text = Some one_product_backup"
  by (simp_all add: sample_parse_def empty_backup_text_def one_product_text_def
      one_product_backup_text_def)

lemma sample_stringify_values:
  "sample_stringify (JArr []) = ''[]''" "sample_stringify (JObj []) = ''{}''"
  "sample_stringify_pretty empty_backup = empty_backup_text"
  "sample_stringify one_product = one_product_text"
  "sample_stringify_pretty one_product_backup = one_product_backup_text"
  by (simp_all add: sample_stringify_def sample_stringify_pretty_def one_product_def
      empty_backup_def one_product_backup_def)

lemma handleBackup_empty_store:
  "handleBackup sample_parse sample_stringify_pretty Map.empty = Some empty_backup_text"
proof -
  have "handleBackup sample_parse sample_stringify_pretty Map.empty
      = Some (sample_stringify_pretty
                (JObj [(''products'', JArr []), (''drafts'', JArr []), (''settings'', JObj [])]))"
    by (simp add: handleBackup_def or_undef_str_def sample_parse_texts)
  then show ?thesis
    using sample_stringify_values(3) by (simp add: empty_backup_def)
qed

lemma handleRestore_accepted:
  assumes "parse content = Some (JObj [(''products'', vp), (''drafts'', vd), (''settings'', vs)])" "\<forall>st key v. accepts st key v"
  shows "handleRestore accepts parse stringify (Some content) target
     = ((\<lambda>key. if key = ''appSettings'' \<and> truthy vs then Some (stringify vs)
               else if key = ''invoiceDrafts'' \<and> truthy vd then Some (stringify vd)
               else if key = ''products'' \<and> truthy vp then Some (stringify vp)
               else target key), Restored)"
  using assms
  by (auto simp add: handleRestore_def restoreKey_def setItem_def getProp_def fun_eq_iff)

text \<open>
  C3, as the claim states it, fails for a store in which a record is absent, the state
  of a fresh installation: the backup of the empty store holds \<^verbatim>\<open>[]\<close>, \<^verbatim>\<open>[]\<close> and \<^verbatim>\<open>{}\<close>,
  and restoring that file creates the three records, which the store did not have.
\<close>

theorem backup_restore_absent_records_counterexample:
  "handleBackup sample_parse sample_stringify_pretty Map.empty = Some empty_backup_text
   \<and> fst (handleRestore unlimited sample_parse sample_stringify (Some empty_backup_text)
            Map.empty) ''products'' = Some ''[]''
   \<and> fst (handleRestore unlimited sample_parse sample_stringify (Some empty_backup_text)
            Map.empty) ''invoiceDrafts'' = Some ''[]''
   \<and> fst (handleRestore unlimited sample_parse sample_stringify (Some empty_backup_text)
            Map.empty) ''appSettings'' = Some ''{}''
   \<and> (Map.empty :: storage) ''products'' = None
   \<and> (Map.empty :: storage) ''invoiceDrafts'' = None
   \<and> (Map.empty :: storage) ''appSettings'' = None"
proof -
  have p: "sample_parse empty_backup_text
      = Some (JObj [(''products'', JArr []), (''drafts'', JArr []), (''settings'', JObj [])])"
    using sample_parse_texts(3) by (simp add: empty_backup_def)
  have a: "\<forall>st key v. unlimited st key v"
    by (simp add: unlimited_def)
  show ?thesis
    by (simp add: handleBackup_empty_store handleRestore_accepted [where parse = sample_parse and accepts = unlimited, OF p a] truthy_def
        sample_stringify_values)
qed

text \<open>
  C3, amended. Take any store from which \<^verbatim>\<open>handleBackup\<close> can write a file (the three
  texts it reads parse), let \<^verbatim>\<open>JSON.parse\<close> read that file back as the object that was
  written, and restore the file into any store that accepts the writes. The restore
  succeeds and touches the three records only. Each record ends as the
  \<^verbatim>\<open>JSON.stringify\<close> text of the value that the backup holds for it, when that value is
  truthy, and stays as the target store had it otherwise. So a record that was present,
  not empty, and held the \<^verbatim>\<open>JSON.stringify\<close> text of a truthy value (an array or an
  object, as the program writes them) comes back byte-identical, whatever the other two
  records were; and a record that was absent (or empty) comes back present, holding the
  text of \<^verbatim>\<open>[]\<close> (of \<^verbatim>\<open>{}\<close> for the settings).
\<close>

theorem backup_restore_roundtrip:
  "parse (or_undef_str (ls ''products'') ''[]'') = Some vp
   \<and> parse (or_undef_str (ls ''invoiceDrafts'') ''[]'') = Some vd
   \<and> parse (or_undef_str (ls ''appSettings'') ''{}'') = Some vs
   \<and> parse (stringify_pretty (JObj [(''products'', vp), (''drafts'', vd), (''settings'', vs)])) = Some (JObj [(''products'', vp), (''drafts'', vd), (''settings'', vs)])
   \<and> (\<forall>st key v. accepts st key v)
   \<longrightarrow>
     handleBackup parse stringify_pretty ls = Some (stringify_pretty (JObj [(''products'', vp), (''drafts'', vd), (''settings'', vs)]))
   \<and> snd (handleRestore accepts parse stringify (handleBackup parse stringify_pretty ls) target) = Restored
   \<and> fst (handleRestore accepts parse stringify (handleBackup parse stringify_pretty ls) target) ''products'' = (if truthy vp then Some (stringify vp) else target ''products'')
   \<and> fst (handleRestore accepts parse stringify (handleBackup parse stringify_pretty ls) target) ''invoiceDrafts'' = (if truthy vd then Some (stringify vd) else target ''invoiceDrafts'')
   \<and> fst (handleRestore accepts parse stringify (handleBackup parse stringify_pretty ls) target) ''appSettings'' = (if truthy vs then Some (stringify vs) else target ''appSettings'')
   \<and> (ls ''products'' = Some sp \<and> sp \<noteq> [] \<and> truthy vp \<and> stringify vp = sp \<longrightarrow>
        fst (handleRestore accepts parse stringify (handleBackup parse stringify_pretty ls) target) ''products'' = ls ''products'')
   \<and> (ls ''invoiceDrafts'' = Some sd \<and> sd \<noteq> [] \<and> truthy vd \<and> stringify vd = sd \<longrightarrow>
        fst (handleRestore accepts parse stringify (handleBackup parse stringify_pretty ls) target) ''invoiceDrafts'' = ls ''invoiceDrafts'')
   \<and> (ls ''appSettings'' = Some ss \<and> ss \<noteq> [] \<and> truthy vs \<and> stringify vs = ss \<longrightarrow>
        fst (handleRestore accepts parse stringify (handleBackup parse stringify_pretty ls) target) ''appSettings'' = ls ''appSettings'')
   \<and> ((ls ''products'' = None \<or> ls ''products'' = Some []) \<and> parse ''[]'' = Some (JArr []) \<longrightarrow>
        fst (handleRestore accepts parse stringify (handleBackup parse stringify_pretty ls) target) ''products'' = Some (stringify (JArr [])))
   \<and> ((ls ''invoiceDrafts'' = None \<or> ls ''invoiceDrafts'' = Some []) \<and> parse ''[]'' = Some (JArr []) \<longrightarrow>
        fst (handleRestore accepts parse stringify (handleBackup parse stringify_pretty ls) target) ''invoiceDrafts'' = Some (stringify (JArr [])))
   \<and> ((ls ''appSettings'' = None \<or> ls ''appSettings'' = Some []) \<and> parse ''{}'' = Some (JObj []) \<longrightarrow>
        fst (handleRestore accepts parse stringify (handleBackup parse stringify_pretty ls) target) ''appSettings'' = Some (stringify (JObj [])))
   \<and> (\<forall>key. key \<noteq> ''products'' \<and> key \<noteq> ''invoiceDrafts'' \<and> key \<noteq> ''appSettings'' \<longrightarrow>
        fst (handleRestore accepts parse stringify (handleBackup parse stringify_pretty ls) target) key = target key)"
proof (intro impI)
  assume h: "parse (or_undef_str (ls ''products'') ''[]'') = Some vp
   \<and> parse (or_undef_str (ls ''invoiceDrafts'') ''[]'') = Some vd
   \<and> parse (or_undef_str (ls ''appSettings'') ''{}'') = Some vs
   \<and> parse (stringify_pretty (JObj [(''products'', vp), (''drafts'', vd), (''settings'', vs)])) = Some (JObj [(''products'', vp), (''drafts'', vd), (''settings'', vs)])
   \<and> (\<forall>st key v. accepts st key v)"
  then have backup: "handleBackup parse stringify_pretty ls = Some (stringify_pretty (JObj [(''products'', vp), (''drafts'', vd), (''settings'', vs)]))"
    by (simp add: handleBackup_def)
  from h have rd: "parse (stringify_pretty (JObj [(''products'', vp), (''drafts'', vd), (''settings'', vs)])) = Some (JObj [(''products'', vp), (''drafts'', vd), (''settings'', vs)])"
    and acc: "\<forall>st key v. accepts st key v" by simp_all
  have restore: "handleRestore accepts parse stringify (handleBackup parse stringify_pretty ls) target
     = ((\<lambda>key. if key = ''appSettings'' \<and> truthy vs then Some (stringify vs)
               else if key = ''invoiceDrafts'' \<and> truthy vd then Some (stringify vd)
               else if key = ''products'' \<and> truthy vp then Some (stringify vp)
               else target key), Restored)"
    unfolding backup by (rule handleRestore_accepted [where parse = parse and accepts = accepts, OF rd acc])
  have outcome: "snd (handleRestore accepts parse stringify (handleBackup parse stringify_pretty ls) target) = Restored"
    and wp: "fst (handleRestore accepts parse stringify (handleBackup parse stringify_pretty ls) target) ''products'' = (if truthy vp then Some (stringify vp) else target ''products'')"
    and wd: "fst (handleRestore accepts parse stringify (handleBackup parse stringify_pretty ls) target) ''invoiceDrafts'' = (if truthy vd then Some (stringify vd) else target ''invoiceDrafts'')"
    and ws: "fst (handleRestore accepts parse stringify (handleBackup parse stringify_pretty ls) target) ''appSettings'' = (if truthy vs then Some (stringify vs) else target ''appSettings'')"
    and other: "(\<forall>key. key \<noteq> ''products'' \<and> key \<noteq> ''invoiceDrafts'' \<and> key \<noteq> ''appSettings'' \<longrightarrow>
        fst (handleRestore accepts parse stringify (handleBackup parse stringify_pretty ls) target) key = target key)"
    unfolding restore by simp_all
  have rp: "(ls ''products'' = Some sp \<and> sp \<noteq> [] \<and> truthy vp \<and> stringify vp = sp \<longrightarrow>
        fst (handleRestore accepts parse stringify (handleBackup parse stringify_pretty ls) target) ''products'' = ls ''products'')" using wp by simp
  have rd: "(ls ''invoiceDrafts'' = Some sd \<and> sd \<noteq> [] \<and> truthy vd \<and> stringify vd = sd \<longrightarrow>
        fst (handleRestore accepts parse stringify (handleBackup parse stringify_pretty ls) target) ''invoiceDrafts'' = ls ''invoiceDrafts'')" using wd by simp
  have rs: "(ls ''appSettings'' = Some ss \<and> ss \<noteq> [] \<and> truthy vs \<and> stringify vs = ss \<longrightarrow>
        fst (handleRestore accepts parse stringify (handleBackup parse stringify_pretty ls) target) ''appSettings'' = ls ''appSettings'')" using ws by simp
  have tr: "truthy (JArr [])" "truthy (JObj [])" by (simp_all add: truthy_def)
  have ap: "((ls ''products'' = None \<or> ls ''products'' = Some []) \<and> parse ''[]'' = Some (JArr []) \<longrightarrow>
        fst (handleRestore accepts parse stringify (handleBackup parse stringify_pretty ls) target) ''products'' = Some (stringify (JArr [])))"
  proof (intro impI)
    assume a: "(ls ''products'' = None \<or> ls ''products'' = Some []) \<and> parse ''[]'' = Some (JArr [])"
    then have "or_undef_str (ls ''products'') ''[]'' = ''[]''"
      by (auto simp add: or_undef_str_def or_str_def)
    with h a have "vp = JArr []" by simp
    with wp tr show "fst (handleRestore accepts parse stringify (handleBackup parse stringify_pretty ls) target) ''products'' = Some (stringify (JArr []))" by simp
  qed
  have ad: "((ls ''invoiceDrafts'' = None \<or> ls ''invoiceDrafts'' = Some []) \<and> parse ''[]'' = Some (JArr []) \<longrightarrow>
        fst (handleRestore accepts parse stringify (handleBackup parse stringify_pretty ls) target) ''invoiceDrafts'' = Some (stringify (JArr [])))"
  proof (intro impI)
    assume a: "(ls ''invoiceDrafts'' = None \<or> ls ''invoiceDrafts'' = Some []) \<and> parse ''[]'' = Some (JArr [])"
    then have "or_undef_str (ls ''invoiceDrafts'') ''[]'' = ''[]''"
      by (auto simp add: or_undef_str_def or_str_def)
    with h a have "vd = JArr []" by simp
    with wd tr show "fst (handleRestore accepts parse stringify (handleBackup parse stringify_pretty ls) target) ''invoiceDrafts'' = Some (stringify (JArr []))" by simp
  qed
  have as: "((ls ''appSettings'' = None \<or> ls ''appSettings'' = Some []) \<and> parse ''{}'' = Some (JObj []) \<longrightarrow>
        fst (handleRestore accepts parse stringify (handleBackup parse stringify_pretty ls) target) ''appSettings'' = Some (stringify (JObj [])))"
  proof (intro impI)
    assume a: "(ls ''appSettings'' = None \<or> ls ''appSettings'' = Some []) \<and> parse ''{}'' = Some (JObj [])"
    then have "or_undef_str (ls ''appSettings'') ''{}'' = ''{}''"
      by (auto simp add: or_undef_str_def or_str_def)
    with h a have "vs = JObj []" by simp
    with ws tr show "fst (handleRestore accepts parse stringify (handleBackup parse stringify_pretty ls) target) ''appSettings'' = Some (stringify (JObj []))" by simp
  qed
  from backup outcome wp wd ws rp rd rs ap ad as other
  show "handleBackup parse stringify_pretty ls = Some (stringify_pretty (JObj [(''products'', vp), (''drafts'', vd), (''settings'', vs)]))
   \<and> snd (handleRestore accepts parse stringify (handleBackup parse stringify_pretty ls) target) = Restored
   \<and> fst (handleRestore accepts parse stringify (handleBackup parse stringify_pretty ls) target) ''products'' = (if truthy vp then Some (stringify vp) else target ''products'')
   \<and> fst (handleRestore accepts parse stringify (handleBackup parse stringify_pretty ls) target) ''invoiceDrafts'' = (if truthy vd then Some (stringify vd) else target ''invoiceDrafts'')
   \<and> fst (handleRestore accepts parse stringify (handleBackup parse stringify_pretty ls) target) ''appSettings'' = (if truthy vs then Some (stringify vs) else target ''appSettings'')
   \<and> (ls ''products'' = Some sp \<and> sp \<noteq> [] \<and> truthy vp \<and> stringify vp = sp \<longrightarrow>
        fst (handleRestore accepts parse stringify (handleBackup parse stringify_pretty ls) target) ''products'' = ls ''products'')
   \<and> (ls ''invoiceDrafts'' = Some sd \<and> sd \<noteq> [] \<and> truthy vd \<and> stringify vd = sd \<longrightarrow>
        fst (handleRestore accepts parse stringify (handleBackup parse stringify_pretty ls) target) ''invoiceDrafts'' = ls ''invoiceDrafts'')
   \<and> (ls ''appSettings'' = Some ss \<and> ss \<noteq> [] \<and> truthy vs \<and> stringify vs = ss \<longrightarrow>
        fst (handleRestore accepts parse stringify (handleBackup parse stringify_pretty ls) target) ''appSettings'' = ls ''appSettings'')
   \<and> ((ls ''products'' = None \<or> ls ''products'' = Some []) \<and> parse ''[]'' = Some (JArr []) \<longrightarrow>
        fst (handleRestore accepts parse stringify (handleBackup parse stringify_pretty ls) target) ''products'' = Some (stringify (JArr [])))
   \<and> ((ls ''invoiceDrafts'' = None \<or> ls ''invoiceDrafts'' = Some []) \<and> parse ''[]'' = Some (JArr []) \<longrightarrow>
        fst (handleRestore accepts parse stringify (handleBackup parse stringify_pretty ls) target) ''invoiceDrafts'' = Some (stringify (JArr [])))
   \<and> ((ls ''appSettings'' = None \<or> ls ''appSettings'' = Some []) \<and> parse ''{}'' = Some (JObj []) \<longrightarrow>
        fst (handleRestore accepts parse stringify (handleBackup parse stringify_pretty ls) target) ''appSettings'' = Some (stringify (JObj [])))
   \<and> (\<forall>key. key \<noteq> ''products'' \<and> key \<noteq> ''invoiceDrafts'' \<and> key \<noteq> ''appSettings'' \<longrightarrow>
        fst (handleRestore accepts parse stringify (handleBackup parse stringify_pretty ls) target) key = target key)"
    by blast
qed

theorem backup_restore_roundtrip_witness:
  "sample_parse one_product_text = Some one_product \<and> truthy one_product
   \<and> sample_stringify one_product = one_product_text
   \<and> sample_parse ''[]'' = Some (JArr []) \<and> sample_parse ''{}'' = Some (JObj [])
   \<and> sample_parse (sample_stringify_pretty (JObj [(''products'', one_product), (''drafts'', JArr []), (''settings'', JObj [])])) = Some (JObj [(''products'', one_product), (''drafts'', JArr []), (''settings'', JObj [])])
   \<and> handleBackup sample_parse sample_stringify_pretty (Map.empty(''products'' \<mapsto> one_product_text)) = Some one_product_backup_text
   \<and> snd (handleRestore unlimited sample_parse sample_stringify
          (handleBackup sample_parse sample_stringify_pretty (Map.empty(''products'' \<mapsto> one_product_text))) (Map.empty(''products'' \<mapsto> ''[]'', ''theme'' \<mapsto> ''dark''))) = Restored
   \<and> fst (handleRestore unlimited sample_parse sample_stringify
          (handleBackup sample_parse sample_stringify_pretty (Map.empty(''products'' \<mapsto> one_product_text))) (Map.empty(''products'' \<mapsto> ''[]'', ''theme'' \<mapsto> ''dark''))) ''products'' = Some one_product_text
   \<and> fst (handleRestore unlimited sample_parse sample_stringify
          (handleBackup sample_parse sample_stringify_pretty (Map.empty(''products'' \<mapsto> one_product_text))) (Map.empty(''products'' \<mapsto> ''[]'', ''theme'' \<mapsto> ''dark''))) ''invoiceDrafts'' = Some ''[]''
   \<and> fst (handleRestore unlimited sample_parse sample_stringify
          (handleBackup sample_parse sample_stringify_pretty (Map.empty(''products'' \<mapsto> one_product_text))) (Map.empty(''products'' \<mapsto> ''[]'', ''theme'' \<mapsto> ''dark''))) ''appSettings'' = Some ''{}''
   \<and> fst (handleRestore unlimited sample_parse sample_stringify
          (handleBackup sample_parse sample_stringify_pretty (Map.empty(''products'' \<mapsto> one_product_text))) (Map.empty(''products'' \<mapsto> ''[]'', ''theme'' \<mapsto> ''dark''))) ''theme'' = Some ''dark''"
proof -
  have codec: "sample_parse one_product_text = Some one_product" "truthy one_product"
    "sample_stringify one_product = one_product_text"
    "sample_parse ''[]'' = Some (JArr [])" "sample_parse ''{}'' = Some (JObj [])"
    "sample_stringify (JArr []) = ''[]''" "sample_stringify (JObj []) = ''{}''"
    by (simp_all add: sample_parse_texts sample_stringify_values)
      (simp add: truthy_def one_product_def)
  have pretty: "sample_stringify_pretty (JObj [(''products'', one_product), (''drafts'', JArr []), (''settings'', JObj [])]) = one_product_backup_text"
    using sample_stringify_values(5) by (simp add: one_product_backup_def)
  have written: "sample_parse (sample_stringify_pretty (JObj [(''products'', one_product), (''drafts'', JArr []), (''settings'', JObj [])])) = Some (JObj [(''products'', one_product), (''drafts'', JArr []), (''settings'', JObj [])])"
    unfolding pretty using sample_parse_texts(5) by (simp add: one_product_backup_def)
  have ne: "one_product_text \<noteq> []"
    by (simp add: one_product_text_def)
  have texts: "sample_parse (or_undef_str ((Map.empty(''products'' \<mapsto> one_product_text)) ''products'') ''[]'') = Some one_product"
    "sample_parse (or_undef_str ((Map.empty(''products'' \<mapsto> one_product_text)) ''invoiceDrafts'') ''[]'') = Some (JArr [])"
    "sample_parse (or_undef_str ((Map.empty(''products'' \<mapsto> one_product_text)) ''appSettings'') ''{}'') = Some (JObj [])"
    using ne by (simp_all add: or_undef_str_def or_str_def codec)
  have stored: "(Map.empty(''products'' \<mapsto> one_product_text)) ''products'' = Some one_product_text"
    "(Map.empty(''products'' \<mapsto> one_product_text)) ''invoiceDrafts'' = None" "(Map.empty(''products'' \<mapsto> one_product_text)) ''appSettings'' = None"
    by simp_all
  have acc: "\<forall>st key v. unlimited st key v"
    by (simp add: unlimited_def)
  have tgt: "(Map.empty(''products'' \<mapsto> ''[]'', ''theme'' \<mapsto> ''dark'')) ''theme'' = Some ''dark''" "''theme'' \<noteq> ''products''"
    "''theme'' \<noteq> ''invoiceDrafts''" "''theme'' \<noteq> ''appSettings''"
    by simp_all
  note th = backup_restore_roundtrip [where ls = "Map.empty(''products'' \<mapsto> one_product_text)" and parse = sample_parse
      and stringify = sample_stringify and stringify_pretty = sample_stringify_pretty
      and accepts = unlimited and vp = one_product and vd = "JArr []" and vs = "JObj []"
      and sp = one_product_text and sd = "[]" and ss = "[]" and target = "Map.empty(''products'' \<mapsto> ''[]'', ''theme'' \<mapsto> ''dark'')"]
  from th texts written acc
  have b: "handleBackup sample_parse sample_stringify_pretty (Map.empty(''products'' \<mapsto> one_product_text))
      = Some (sample_stringify_pretty (JObj [(''products'', one_product), (''drafts'', JArr []), (''settings'', JObj [])]))"
    by blast
  from th texts written acc have o: "snd (handleRestore unlimited sample_parse sample_stringify
          (handleBackup sample_parse sample_stringify_pretty (Map.empty(''products'' \<mapsto> one_product_text))) (Map.empty(''products'' \<mapsto> ''[]'', ''theme'' \<mapsto> ''dark''))) = Restored"
    by blast
  from th texts written acc stored ne codec(2,3)
  have p: "fst (handleRestore unlimited sample_parse sample_stringify
          (handleBackup sample_parse sample_stringify_pretty (Map.empty(''products'' \<mapsto> one_product_text))) (Map.empty(''products'' \<mapsto> ''[]'', ''theme'' \<mapsto> ''dark''))) ''products'' = (Map.empty(''products'' \<mapsto> one_product_text)) ''products''"
    by blast
  from th texts written acc stored codec(4)
  have d: "fst (handleRestore unlimited sample_parse sample_stringify
          (handleBackup sample_parse sample_stringify_pretty (Map.empty(''products'' \<mapsto> one_product_text))) (Map.empty(''products'' \<mapsto> ''[]'', ''theme'' \<mapsto> ''dark''))) ''invoiceDrafts'' = Some (sample_stringify (JArr []))"
    by blast
  from th texts written acc stored codec(5)
  have s: "fst (handleRestore unlimited sample_parse sample_stringify
          (handleBackup sample_parse sample_stringify_pretty (Map.empty(''products'' \<mapsto> one_product_text))) (Map.empty(''products'' \<mapsto> ''[]'', ''theme'' \<mapsto> ''dark''))) ''appSettings'' = Some (sample_stringify (JObj []))"
    by blast
  from th texts written acc
  have "\<forall>key. key \<noteq> ''products'' \<and> key \<noteq> ''invoiceDrafts'' \<and> key \<noteq> ''appSettings'' \<longrightarrow>
        fst (handleRestore unlimited sample_parse sample_stringify
          (handleBackup sample_parse sample_stringify_pretty (Map.empty(''products'' \<mapsto> one_product_text))) (Map.empty(''products'' \<mapsto> ''[]'', ''theme'' \<mapsto> ''dark''))) key = (Map.empty(''products'' \<mapsto> ''[]'', ''theme'' \<mapsto> ''dark'')) key"
    by blast
  with tgt have t: "fst (handleRestore unlimited sample_parse sample_stringify
          (handleBackup sample_parse sample_stringify_pretty (Map.empty(''products'' \<mapsto> one_product_text))) (Map.empty(''products'' \<mapsto> ''[]'', ''theme'' \<mapsto> ''dark''))) ''theme'' = Some ''dark''"
    by simp
  from codec written b pretty o p d s t stored show ?thesis
    by simp
qed

lemma map_of_setProp_same: "map_of (setProp k v kvs) k = Some v"
  by (induction kvs) auto

lemma map_of_setProp_other: "k' \<noteq> k \<Longrightarrow> map_of (setProp k v kvs) k' = map_of kvs k'"
  by (induction kvs) auto

lemma map_of_setProp_defined: "map_of kvs k' \<noteq> None \<Longrightarrow> map_of (setProp k v kvs) k' \<noteq> None"
  by (cases "k' = k") (simp_all add: map_of_setProp_same map_of_setProp_other)

lemma map_of_assign_defined: "map_of target k \<noteq> None \<Longrightarrow> map_of (assign target source) k \<noteq> None"
  unfolding assign_def
proof (induction source arbitrary: target)
  case Nil
  then show ?case by simp
next
  case (Cons kv source)
  obtain k' v where kv: "kv = (k', v)" by (cases kv)
  from Cons.prems have "map_of (setProp k' v target) k \<noteq> None"
    by (rule map_of_setProp_defined)
  from Cons.IH [OF this] show ?case by (simp add: kv)
qed

lemma loadSettings_defaults_present:
  assumes "parsed \<noteq> JNull"
  shows "\<exists>obj tc. loadSettings parsed = Inr obj
      \<and> map_of obj ''themeColor'' \<noteq> None
      \<and> map_of obj ''showImageColumn'' \<noteq> None
      \<and> map_of obj ''tableConfig'' = Some (JObj tc)
      \<and> (\<forall>k\<in>set (map fst DEFAULT_TABLE_CONFIG_obj). map_of tc k \<noteq> None)"
proof -
  let ?tcv = "case getProp parsed ''tableConfig'' of
                None \<Rightarrow> DEFAULT_TABLE_CONFIG_obj
              | Some tc \<Rightarrow> if truthy tc then assign DEFAULT_TABLE_CONFIG_obj (ownProps tc)
                          else DEFAULT_TABLE_CONFIG_obj"
  let ?sic = "case getProp parsed ''showImageColumn'' of None \<Rightarrow> JBool True | Some v \<Rightarrow> v"
  let ?thc = "case getProp parsed ''themeColor'' of None \<Rightarrow> JStr DEFAULT_COLOR
              | Some v \<Rightarrow> if truthy v then v else JStr DEFAULT_COLOR"
  let ?obj = "setProp ''tableConfig'' (JObj ?tcv)
                (setProp ''showImageColumn'' ?sic (setProp ''themeColor'' ?thc (ownProps parsed)))"
  have load: "loadSettings parsed = Inr ?obj"
    using assms by (cases parsed) (simp_all add: loadSettings_def split: option.splits)
  have th: "map_of ?obj ''themeColor'' \<noteq> None"
    by (simp add: map_of_setProp_other map_of_setProp_same)
  have sh: "map_of ?obj ''showImageColumn'' \<noteq> None"
    by (simp add: map_of_setProp_other map_of_setProp_same)
  have tc: "map_of ?obj ''tableConfig'' = Some (JObj ?tcv)"
    by (simp add: map_of_setProp_same)
  have dflt: "map_of DEFAULT_TABLE_CONFIG_obj k \<noteq> None"
    if "k \<in> set (map fst DEFAULT_TABLE_CONFIG_obj)" for k
    using that by (simp add: DEFAULT_TABLE_CONFIG_obj_def) auto
  have "map_of ?tcv k \<noteq> None" if "k \<in> set (map fst DEFAULT_TABLE_CONFIG_obj)" for k
    using dflt [OF that] map_of_assign_defined [of DEFAULT_TABLE_CONFIG_obj k]
    by (simp split: option.splits)
  with load th sh tc show ?thesis by blast
qed

text \<open>
  C8 on the code: loading the stored settings record \<^verbatim>\<open>{}\<close> (which a restore of the
  backup of a fresh installation writes) gives settings with \<^verbatim>\<open>themeColor\<close>,
  \<^verbatim>\<open>showImageColumn\<close> and \<^verbatim>\<open>tableConfig\<close> at their defaults but without \<^verbatim>\<open>taxRate\<close> and
  without \<^verbatim>\<open>companyLogo\<close>: these two stay \<^verbatim>\<open>undefined\<close>, where the claim has them
  defaulted. (The lemma before shows the three fields that the effect does default.)
\<close>

theorem loadSettings_empty_record:
  "loadStoredSettings sample_parse (Map.empty(''appSettings'' \<mapsto> ''{}'')) initialSettings_obj
     = Inr [(''themeColor'', JStr DEFAULT_COLOR), (''showImageColumn'', JBool True),
            (''tableConfig'', JObj DEFAULT_TABLE_CONFIG_obj)]
   \<and> loadSettings (JObj [])
     = Inr [(''themeColor'', JStr DEFAULT_COLOR), (''showImageColumn'', JBool True),
            (''tableConfig'', JObj DEFAULT_TABLE_CONFIG_obj)]
   \<and> getProp (JObj [(''themeColor'', JStr DEFAULT_COLOR), (''showImageColumn'', JBool True),
                     (''tableConfig'', JObj DEFAULT_TABLE_CONFIG_obj)]) ''taxRate'' = None
   \<and> getProp (JObj [(''themeColor'', JStr DEFAULT_COLOR), (''showImageColumn'', JBool True),
                     (''tableConfig'', JObj DEFAULT_TABLE_CONFIG_obj)]) ''companyLogo'' = None"
proof -
  have load: "loadSettings (JObj [])
     = Inr [(''themeColor'', JStr DEFAULT_COLOR), (''showImageColumn'', JBool True),
            (''tableConfig'', JObj DEFAULT_TABLE_CONFIG_obj)]"
    by (simp add: loadSettings_def getProp_def ownProps_def)
  then have "loadStoredSettings sample_parse (Map.empty(''appSettings'' \<mapsto> ''{}''))
       initialSettings_obj
     = Inr [(''themeColor'', JStr DEFAULT_COLOR), (''showImageColumn'', JBool True),
            (''tableConfig'', JObj DEFAULT_TABLE_CONFIG_obj)]"
    by (simp add: loadStoredSettings_def sample_parse_texts)
  with load show ?thesis by (simp add: getProp_def)
qed

end
